theory Spec2Isabelle
  imports Main
begin

section \<open>Characters and strings\<close>

text \<open>
  A Python \<open>str\<close> is modelled as a HOL \<open>string\<close> whose characters are the code points
  below 256. The three character classes of the \<open>re\<close> module that the patterns use are
  written out for exactly these code points: \<open>\s\<close> and \<open>str.isspace\<close> agree there
  (9 to 13, 28 to 32, 133 and 160), \<open>\d\<close> is the ten ASCII digits, and \<open>\w\<close> is the
  underscore together with every code point for which \<open>str.isalnum\<close> holds.
\<close>

definition isspace :: "char \<Rightarrow> bool" where
  "isspace c = (let n = (of_char c :: nat)
                in (9 \<le> n \<and> n \<le> 13) \<or> (28 \<le> n \<and> n \<le> 32) \<or> n = 133 \<or> n = 160)"

definition isdigit :: "char \<Rightarrow> bool" where
  "isdigit c = (let n = (of_char c :: nat) in 48 \<le> n \<and> n \<le> 57)"

definition isword :: "char \<Rightarrow> bool" where
  "isword c = (let n = (of_char c :: nat)
               in (48 \<le> n \<and> n \<le> 57) \<or> (65 \<le> n \<and> n \<le> 90) \<or> n = 95 \<or> (97 \<le> n \<and> n \<le> 122)
                  \<or> n = 170 \<or> n = 178 \<or> n = 179 \<or> n = 181 \<or> n = 185 \<or> n = 186
                  \<or> (188 \<le> n \<and> n \<le> 190) \<or> (192 \<le> n \<and> n \<le> 214)
                  \<or> (216 \<le> n \<and> n \<le> 246) \<or> (248 \<le> n \<and> n \<le> 255))"

text \<open>\<open>str.lower\<close> and \<open>str.upper\<close> on one character, for the ASCII letters.\<close>

definition lower_char :: "char \<Rightarrow> char" where
  "lower_char c = (let n = (of_char c :: nat)
                   in if 65 \<le> n \<and> n \<le> 90 then char_of (n + 32) else c)"

definition upper_char :: "char \<Rightarrow> char" where
  "upper_char c = (let n = (of_char c :: nat)
                   in if 97 \<le> n \<and> n \<le> 122 then char_of (n - 32) else c)"

text \<open>
  \<open>str.capitalize()\<close>: the first character in upper case, the others in lower case. The
  source applies it to a match of an all-ASCII pattern only.
\<close>

fun capitalize :: "string \<Rightarrow> string" where
  "capitalize [] = []"
| "capitalize (x # xs) = upper_char x # map lower_char xs"

text \<open>\<open>str.split()\<close> with no argument: the maximal runs of non-whitespace characters.\<close>

fun split_from :: "string \<Rightarrow> string \<Rightarrow> string list" where
  "split_from cur [] = (if cur = [] then [] else [cur])"
| "split_from cur (x # xs) =
     (if isspace x then (if cur = [] then split_from [] xs else cur # split_from [] xs)
      else split_from (cur @ [x]) xs)"

definition split :: "string \<Rightarrow> string list" where
  "split s = split_from [] s"

text \<open>\<open>str.strip()\<close> with no argument removes the whitespace at both ends.\<close>

definition strip :: "string \<Rightarrow> string" where
  "strip s = rev (dropWhile isspace (rev (dropWhile isspace s)))"

text \<open>
  \<open>s.replace(old, new)\<close> for a non-empty \<open>old\<close>: the occurrences of \<open>old\<close> are replaced
  from the left, without overlap. (Every call of the source passes a non-empty literal.)
\<close>

function replace :: "string \<Rightarrow> string \<Rightarrow> string \<Rightarrow> string" where
  "replace old new [] = []"
| "replace old new (x # xs) =
     (if old \<noteq> [] \<and> take (length old) (x # xs) = old
      then new @ replace old new (drop (length old) (x # xs))
      else x # replace old new xs)"
  by pat_completeness auto
termination
  by (relation "measure (\<lambda>(old, new, s). length s)") auto

section \<open>Regular expressions: \<open>re.search\<close>\<close>

text \<open>
  The patterns of the source use literal characters, the classes \<open>\w\<close>, \<open>\d\<close>, \<open>\s\<close>,
  bracketed sets and their complements, the greedy quantifiers \<open>+\<close>, \<open>?\<close> and \<open>{n}\<close> on
  a single character class, and unnested capture groups. A pattern is the list of its
  tokens in the order in which the source writes them.
\<close>

datatype cset = Chr char | Rng char char | Wd | Dg | Sp

fun in_cset :: "cset \<Rightarrow> char \<Rightarrow> bool" where
  "in_cset (Chr a) c = (c = a)"
| "in_cset (Rng a b) c = ((of_char a :: nat) \<le> of_char c \<and> (of_char c :: nat) \<le> of_char b)"
| "in_cset Wd c = isword c"
| "in_cset Dg c = isdigit c"
| "in_cset Sp c = isspace c"

datatype cclass = One cset | AnyOf "cset list" | NoneOf "cset list"

fun accepts :: "cclass \<Rightarrow> char \<Rightarrow> bool" where
  "accepts (One k) c = in_cset k c"
| "accepts (AnyOf ks) c = (\<exists>k \<in> set ks. in_cset k c)"
| "accepts (NoneOf ks) c = (\<not> (\<exists>k \<in> set ks. in_cset k c))"

datatype tok = T cclass | Plus cclass | Opt cclass | Rep nat cclass | Open | Close

definition lit :: "string \<Rightarrow> tok list" where
  "lit s = map (\<lambda>c. T (One (Chr c))) s"

text \<open>
  The backtracking matcher. \<open>rmatch p s opn caps\<close> matches the tokens \<open>p\<close> at the start
  of \<open>s\<close>; \<open>opn\<close> is the input that was left when the current group opened, \<open>caps\<close> the
  groups closed so far. The result is the groups and the input left after the match. A
  greedy quantifier first tries to take one more character and gives it back only when
  the rest of the pattern fails, which is the order in which Python explores the matches.
\<close>

fun rmatch :: "tok list \<Rightarrow> string \<Rightarrow> string \<Rightarrow> string list \<Rightarrow> (string list \<times> string) option" where
  "rmatch [] s opn caps = Some (caps, s)"
| "rmatch (T c # ts) [] opn caps = None"
| "rmatch (T c # ts) (x # xs) opn caps =
     (if accepts c x then rmatch ts xs opn caps else None)"
| "rmatch (Plus c # ts) [] opn caps = None"
| "rmatch (Plus c # ts) (x # xs) opn caps =
     (if accepts c x
      then (case rmatch (Plus c # ts) xs opn caps of
              Some r \<Rightarrow> Some r
            | None \<Rightarrow> rmatch ts xs opn caps)
      else None)"
| "rmatch (Opt c # ts) [] opn caps = rmatch ts [] opn caps"
| "rmatch (Opt c # ts) (x # xs) opn caps =
     (if accepts c x
      then (case rmatch ts xs opn caps of
              Some r \<Rightarrow> Some r
            | None \<Rightarrow> rmatch ts (x # xs) opn caps)
      else rmatch ts (x # xs) opn caps)"
| "rmatch (Rep 0 c # ts) s opn caps = rmatch ts s opn caps"
| "rmatch (Rep (Suc n) c # ts) [] opn caps = None"
| "rmatch (Rep (Suc n) c # ts) (x # xs) opn caps =
     (if accepts c x then rmatch (Rep n c # ts) xs opn caps else None)"
| "rmatch (Open # ts) s opn caps = rmatch ts s s caps"
| "rmatch (Close # ts) s opn caps =
     rmatch ts s opn (caps @ [take (length opn - length s) opn])"

text \<open>A match object: \<open>group(0)\<close> is the matched text, \<open>group(i)\<close> the i-th group.\<close>

record mtch =
  whole :: string
  groups :: "string list"

text \<open>\<open>re.search\<close> tries every start position from the left and keeps the first match.\<close>

fun re_search :: "tok list \<Rightarrow> string \<Rightarrow> mtch option" where
  "re_search p [] =
     (case rmatch p [] [] [] of
        Some (caps, rest) \<Rightarrow> Some \<lparr>whole = [], groups = caps\<rparr>
      | None \<Rightarrow> None)"
| "re_search p (x # xs) =
     (case rmatch p (x # xs) (x # xs) [] of
        Some (caps, rest) \<Rightarrow>
          Some \<lparr>whole = take (length (x # xs) - length rest) (x # xs), groups = caps\<rparr>
      | None \<Rightarrow> re_search p xs)"

text \<open>
  \<open>m.group(i)\<close>. Every pattern below has the groups its rule asks for, and a match binds
  each of them (\<open>re_search_groups\<close> and \<open>pattern_groups\<close> below), so the index is
  always in range.
\<close>

definition group :: "mtch \<Rightarrow> nat \<Rightarrow> string" where
  "group m i = (if i = 0 then whole m
                else if i \<le> length (groups m) then groups m ! (i - 1) else [])"

section \<open>Dates: \<open>datetime.strptime\<close> and \<open>strftime\<close>\<close>

text \<open>
  The exceptions of the pipeline. \<open>ValueError\<close> is what \<open>strptime\<close> raises on a string
  it cannot read and what pandas raises when column labels do not fit, \<open>IndexError\<close>
  and \<open>KeyError\<close> come from indexing a list and from selecting a missing column.
\<close>

datatype error = ValueError | IndexError | KeyError

record date =
  year :: nat
  month :: nat
  day :: nat

definition digit :: "char \<Rightarrow> nat" where
  "digit c = (of_char c :: nat) - 48"

definition int_of_digits :: "string \<Rightarrow> nat" where
  "int_of_digits s = foldl (\<lambda>n c. 10 * n + digit c) 0 s"

text \<open>
  \<open>strptime(s, '%B %d, %Y')\<close> compiles its format to the regular expression
  \<^verbatim>\<open>(?P<B>september|february|november|december|january|october|august|march|april|june|july|may)\s+(?P<d>3[0-1]|[1-2]\d|0[1-9]|[1-9]| [1-9]),\s+(?P<Y>\d\d\d\d)\<close>
  and matches it case-insensitively at the start of \<open>s\<close> (the month names are those of
  the C locale, which the program never changes). The model lists, in the order in which
  the matcher explores them, every way to match: the alternatives of a directive in the
  order written, a run of whitespace from its longest to its shortest length.
\<close>

definition month_alternatives :: "(string \<times> nat) list" where
  "month_alternatives =
     [(''september'', 9), (''february'', 2), (''november'', 11), (''december'', 12),
      (''january'', 1), (''october'', 10), (''august'', 8), (''march'', 3), (''april'', 4),
      (''june'', 6), (''july'', 7), (''may'', 5)]"

definition directive_B :: "string \<Rightarrow> (nat \<times> string) list" where
  "directive_B s =
     concat (map (\<lambda>(name, k).
       if map lower_char (take (length name) s) = name then [(k, drop (length name) s)] else [])
       month_alternatives)"

fun whitespace_plus :: "string \<Rightarrow> string list" where
  "whitespace_plus [] = []"
| "whitespace_plus (x # xs) = (if isspace x then whitespace_plus xs @ [xs] else [])"

definition nonzero_digit :: "char \<Rightarrow> bool" where
  "nonzero_digit c = (isdigit c \<and> c \<noteq> CHR ''0'')"

definition directive_d :: "string \<Rightarrow> (nat \<times> string) list" where
  "directive_d s =
     (case s of
        a # b # r \<Rightarrow>
          (if a = CHR ''3'' \<and> (b = CHR ''0'' \<or> b = CHR ''1'') then [(30 + digit b, r)] else [])
          @ (if (a = CHR ''1'' \<or> a = CHR ''2'') \<and> isdigit b then [(10 * digit a + digit b, r)] else [])
          @ (if a = CHR ''0'' \<and> nonzero_digit b then [(digit b, r)] else [])
      | _ \<Rightarrow> [])
     @ (case s of a # r \<Rightarrow> (if nonzero_digit a then [(digit a, r)] else []) | [] \<Rightarrow> [])
     @ (case s of
          a # b # r \<Rightarrow> (if a = CHR '' '' \<and> nonzero_digit b then [(digit b, r)] else [])
        | _ \<Rightarrow> [])"

definition comma :: "string \<Rightarrow> string list" where
  "comma s = (case s of c # r \<Rightarrow> (if c = CHR '','' then [r] else []) | [] \<Rightarrow> [])"

definition directive_Y :: "string \<Rightarrow> (nat \<times> string) list" where
  "directive_Y s =
     (if 4 \<le> length s \<and> list_all isdigit (take 4 s)
      then [(int_of_digits (take 4 s), drop 4 s)] else [])"

text \<open>All matches of the format, first the one that \<open>re.match\<close> returns.\<close>

definition format_matches :: "string \<Rightarrow> ((nat \<times> nat \<times> nat) \<times> string) list" where
  "format_matches s =
     concat (map (\<lambda>(m, r1).
       concat (map (\<lambda>r2.
         concat (map (\<lambda>(d, r3).
           concat (map (\<lambda>r4.
             concat (map (\<lambda>r5.
               map (\<lambda>(y, r6). ((y, m, d), r6)) (directive_Y r5))
               (whitespace_plus r4)))
             (comma r3)))
           (directive_d r2)))
         (whitespace_plus r1)))
       (directive_B s))"

definition leap_year :: "nat \<Rightarrow> bool" where
  "leap_year y = (y mod 4 = 0 \<and> (y mod 100 \<noteq> 0 \<or> y mod 400 = 0))"

definition days_in_month :: "nat \<Rightarrow> nat \<Rightarrow> nat" where
  "days_in_month y m =
     (if m = 2 then (if leap_year y then 29 else 28)
      else if m = 4 \<or> m = 6 \<or> m = 9 \<or> m = 11 then 30 else 31)"

text \<open>
  No match, text left after the match, the year 0 and a day the month does not have
  are the four ways in which \<open>strptime\<close> raises \<open>ValueError\<close>.
\<close>

definition strptime :: "string \<Rightarrow> error + date" where
  "strptime s =
     (case format_matches s of
        [] \<Rightarrow> Inl ValueError
      | ((y, m, d), rest) # _ \<Rightarrow>
          if rest \<noteq> [] then Inl ValueError
          else if y < 1 \<or> days_in_month y m < d then Inl ValueError
          else Inr \<lparr>year = y, month = m, day = d\<rparr>)"

definition month_abbr :: "string list" where
  "month_abbr = [''Jan'', ''Feb'', ''Mar'', ''Apr'', ''May'', ''Jun'',
                 ''Jul'', ''Aug'', ''Sep'', ''Oct'', ''Nov'', ''Dec'']"

definition two_digits :: "nat \<Rightarrow> string" where
  "two_digits n = [char_of (48 + (n div 10) mod 10), char_of (48 + n mod 10)]"

text \<open>\<open>d.strftime('%d-%b-%y')\<close>: day of the month, abbreviated month name, year of the century.\<close>

definition strftime :: "date \<Rightarrow> string" where
  "strftime d =
     two_digits (day d) @ ''-'' @ month_abbr ! (month d - 1) @ ''-'' @ two_digits (year d mod 100)"

section \<open>The pattern extractor (\<open>document_extractor.py\<close>)\<close>

text \<open>An extraction record: the dictionary with the keys \<open>key\<close>, \<open>value\<close>, \<open>comments\<close>.\<close>

record entry =
  key :: string
  val :: string
  comments :: string

text \<open>
  A rule either raises or contributes records. \<open>collect\<close> runs rules in order, as the
  statements of one method run: the first exception leaves the method, and the records
  appended before it are lost with the local list.
\<close>

fun collect :: "(error + entry list) list \<Rightarrow> error + entry list" where
  "collect [] = Inr []"
| "collect (r # rs) =
     (case r of
        Inl e \<Rightarrow> Inl e
      | Inr xs \<Rightarrow> (case collect rs of Inl e \<Rightarrow> Inl e | Inr ys \<Rightarrow> Inr (xs @ ys)))"

subsection \<open>\<open>extract_personal_info\<close>\<close>

definition name_re :: "tok list" where
  "name_re = [Open, Plus (One Wd), Plus (One Sp), Plus (One Wd), Close, Plus (One Sp)]
             @ lit ''was born''"

definition dob_re :: "tok list" where
  "dob_re = lit ''born on ''
            @ [Open, Plus (One Wd), T (One (Chr CHR '' '')), Plus (One Dg)] @ lit '', ''
            @ [Rep 4 (One Dg), Close]"

definition birth_re :: "tok list" where
  "birth_re = lit ''born on '' @ [Plus (NoneOf [Chr CHR '',''])] @ lit '', in ''
              @ [Open, Plus (One Wd), Close] @ lit '', '' @ [Open, Plus (One Wd), Close]"

definition birth_context_re :: "tok list" where
  "birth_context_re = lit ''Born and raised in the Pink City of India, his birthplace provides valuable regional profiling context''"

definition age_re :: "tok list" where
  "age_re = lit ''making him '' @ [Open, Plus (One Dg), Close] @ lit '' years old as of ''
            @ [Open, Rep 4 (One Dg), Close]"

definition age_context_re :: "tok list" where
  "age_context_re = lit ''His birthdate is formatted as'' @ [Plus (NoneOf [Chr CHR '',''])]
     @ lit '', while his age serves as a key demographic marker for analytical purposes''"

definition blood_re :: "tok list" where
  "blood_re = lit ''his ''
              @ [Open, T (AnyOf [Rng CHR ''A'' CHR ''Z'']), Opt (One (Chr CHR ''+'')), Close]
              @ lit '' blood group''"

definition blood_context_re :: "tok list" where
  "blood_context_re = lit ''his '' @ [T (AnyOf [Rng CHR ''A'' CHR ''Z'']), Opt (One (Chr CHR ''+''))]
     @ lit '' blood group is noted for emergency contact purposes''"

definition nationality_re :: "tok list" where
  "nationality_re = lit ''As an '' @ [Open, Plus (One Wd), Close] @ lit '' national''"

definition nat_context_str :: string where
  "nat_context_str = ''his citizenship status is important for understanding his work authorization and visa requirements across different employment opportunities''"

definition name_rule :: "string \<Rightarrow> error + entry list" where
  "name_rule text =
     (case re_search name_re text of
        None \<Rightarrow> Inr []
      | Some name_match \<Rightarrow>
          (let full_name = group name_match 1; names = split full_name
           in case names of
                [] \<Rightarrow> Inl IndexError
              | first # _ \<Rightarrow>
                  Inr [\<lparr>key = ''First Name'', val = first, comments = []\<rparr>,
                       \<lparr>key = ''Last Name'',
                        val = (if length names > 1 then names ! 1 else []),
                        comments = []\<rparr>]))"

definition dob_rule :: "string \<Rightarrow> error + entry list" where
  "dob_rule text =
     (case re_search dob_re text of
        None \<Rightarrow> Inr []
      | Some dob_match \<Rightarrow>
          (case strptime (group dob_match 1) of
             Inl e \<Rightarrow> Inl e
           | Inr dob_obj \<Rightarrow>
               Inr [\<lparr>key = ''Date of Birth'', val = strftime dob_obj, comments = []\<rparr>]))"

definition birth_rule :: "string \<Rightarrow> entry list" where
  "birth_rule text =
     (case re_search birth_re text of
        None \<Rightarrow> []
      | Some birth_match \<Rightarrow>
          (let city = group birth_match 1;
               state = group birth_match 2;
               city_comment = (case re_search birth_context_re text of
                                 Some context_match \<Rightarrow> group context_match 0
                               | None \<Rightarrow> [])
           in [\<lparr>key = ''Birth City'', val = city, comments = city_comment\<rparr>,
               \<lparr>key = ''Birth State'', val = state, comments = city_comment\<rparr>]))"

definition age_rule :: "string \<Rightarrow> entry list" where
  "age_rule text =
     (case re_search age_re text of
        None \<Rightarrow> []
      | Some age_match \<Rightarrow>
          [\<lparr>key = ''Age'', val = group age_match 1 @ '' years'',
            comments = (case re_search age_context_re text of
                          Some age_context \<Rightarrow> group age_context 0
                        | None \<Rightarrow> [])\<rparr>])"

definition blood_rule :: "string \<Rightarrow> entry list" where
  "blood_rule text =
     (case re_search blood_re text of
        None \<Rightarrow> []
      | Some blood_match \<Rightarrow>
          [\<lparr>key = ''Blood Group'', val = group blood_match 1,
            comments = (case re_search blood_context_re text of
                          Some blood_context \<Rightarrow>
                            capitalize (replace ''his O+ blood group is noted for '' []
                                          (group blood_context 0))
                        | None \<Rightarrow> [])\<rparr>])"

definition nationality_rule :: "string \<Rightarrow> entry list" where
  "nationality_rule text =
     (case re_search nationality_re text of
        None \<Rightarrow> []
      | Some nationality_match \<Rightarrow>
          [\<lparr>key = ''Nationality'', val = group nationality_match 1,
            comments = (case re_search (lit nat_context_str) text of
                          Some nat_context \<Rightarrow>
                            replace nat_context_str
                              ''Citizenship status is important for understanding his work authorization and visa requirements across different employment opportunities.''
                              (group nat_context 0)
                        | None \<Rightarrow> [])\<rparr>])"

definition extract_personal_info :: "string \<Rightarrow> error + entry list" where
  "extract_personal_info text =
     collect [name_rule text, dob_rule text, Inr (birth_rule text), Inr (age_rule text),
              Inr (blood_rule text), Inr (nationality_rule text)]"

subsection \<open>\<open>extract_professional_info\<close>\<close>

definition date_group :: "tok list" where
  "date_group = [Open, Plus (One Wd), T (One (Chr CHR '' '')), Plus (One Dg)] @ lit '', ''
                @ [Rep 4 (One Dg), Close]"

definition first_job_re :: "tok list" where
  "first_job_re = lit ''professional journey began on '' @ date_group
     @ lit '', when he joined his first company as a ''
     @ [Open, Plus (NoneOf [Chr CHR ''w'']), Close]
     @ lit '' with an annual salary of ''
     @ [Open, Plus (AnyOf [Dg, Chr CHR '','']), Close] @ lit '' INR''"

definition current_org_re :: "tok list" where
  "current_org_re = lit ''his current role at '' @ [Open, Plus (NoneOf [Chr CHR ''b'']), Close]
     @ lit '' beginning''"

definition current_join_re :: "tok list" where
  "current_join_re = lit ''beginning on '' @ date_group"

definition current_desig_re :: "tok list" where
  "current_desig_re = lit ''where he serves as a '' @ [Open, Plus (NoneOf [Chr CHR ''e'']), Close]
     @ lit '' earning''"

definition current_sal_re :: "tok list" where
  "current_sal_re = lit ''earning '' @ [Open, Plus (AnyOf [Dg, Chr CHR '','']), Close]
     @ lit '' INR annually''"

definition salary_context_re :: "tok list" where
  "salary_context_re =
     lit ''This salary progression from his starting compensation to his current peak salary of 2,800,000 INR represents a substantial eight-''
     @ [Opt (One (Chr CHR '' ''))]
     @ lit ''fold increase over his twelve-year career span''"

definition prev_org_re :: "tok list" where
  "prev_org_re = lit ''he worked at '' @ [Open, Plus (NoneOf [Chr CHR ''f'']), Close] @ lit '' from''"

definition prev_join_re :: "tok list" where
  "prev_join_re = lit ''from '' @ date_group @ lit '', to''"

definition prev_end_re :: "tok list" where
  "prev_end_re = lit ''from '' @ [Plus (NoneOf [Chr CHR '',''])] @ lit '', to ''
     @ [Open, Rep 4 (One Dg), Close]"

definition prev_desig_re :: "tok list" where
  "prev_desig_re = lit ''starting as a '' @ [Open, Plus (NoneOf [Chr CHR ''a'']), Close]
     @ lit '' and earning a promotion''"

definition first_job_rule :: "string \<Rightarrow> error + entry list" where
  "first_job_rule text =
     (case re_search first_job_re text of
        None \<Rightarrow> Inr []
      | Some first_job_match \<Rightarrow>
          (case strptime (group first_job_match 1) of
             Inl e \<Rightarrow> Inl e
           | Inr joining_date \<Rightarrow>
               Inr [\<lparr>key = ''Joining Date of first professional role'',
                     val = strftime joining_date, comments = []\<rparr>,
                    \<lparr>key = ''Designation of first professional role'',
                     val = strip (group first_job_match 2), comments = []\<rparr>,
                    \<lparr>key = ''Salary of first professional role'',
                     val = replace '','' [] (group first_job_match 3), comments = []\<rparr>,
                    \<lparr>key = ''Salary currency of first professional role'',
                     val = ''INR'', comments = []\<rparr>]))"

definition current_org_rule :: "string \<Rightarrow> entry list" where
  "current_org_rule text =
     (case re_search current_org_re text of
        None \<Rightarrow> []
      | Some current_org_match \<Rightarrow>
          [\<lparr>key = ''Current Organization'', val = strip (group current_org_match 1),
            comments = []\<rparr>])"

definition current_join_rule :: "string \<Rightarrow> error + entry list" where
  "current_join_rule text =
     (case re_search current_join_re text of
        None \<Rightarrow> Inr []
      | Some current_join_match \<Rightarrow>
          (case strptime (group current_join_match 1) of
             Inl e \<Rightarrow> Inl e
           | Inr current_date \<Rightarrow>
               Inr [\<lparr>key = ''Current Joining Date'', val = strftime current_date,
                     comments = []\<rparr>]))"

definition current_desig_rule :: "string \<Rightarrow> entry list" where
  "current_desig_rule text =
     (case re_search current_desig_re text of
        None \<Rightarrow> []
      | Some current_desig_match \<Rightarrow>
          [\<lparr>key = ''Current Designation'', val = strip (group current_desig_match 1),
            comments = []\<rparr>])"

definition current_sal_rule :: "string \<Rightarrow> entry list" where
  "current_sal_rule text =
     (case re_search current_sal_re text of
        None \<Rightarrow> []
      | Some current_sal_match \<Rightarrow>
          [\<lparr>key = ''Current Salary'', val = replace '','' [] (group current_sal_match 1),
            comments = (case re_search salary_context_re text of
                          Some salary_context \<Rightarrow> group salary_context 0
                        | None \<Rightarrow> [])\<rparr>,
           \<lparr>key = ''Current Salary Currency'', val = ''INR'', comments = []\<rparr>])"

definition prev_org_rule :: "string \<Rightarrow> entry list" where
  "prev_org_rule text =
     (case re_search prev_org_re text of
        None \<Rightarrow> []
      | Some prev_org_match \<Rightarrow>
          [\<lparr>key = ''Previous Organization'', val = strip (group prev_org_match 1),
            comments = []\<rparr>])"

definition prev_join_rule :: "string \<Rightarrow> error + entry list" where
  "prev_join_rule text =
     (case re_search prev_join_re text of
        None \<Rightarrow> Inr []
      | Some prev_join_match \<Rightarrow>
          (case strptime (group prev_join_match 1) of
             Inl e \<Rightarrow> Inl e
           | Inr prev_date \<Rightarrow>
               Inr [\<lparr>key = ''Previous Joining Date'', val = strftime prev_date,
                     comments = []\<rparr>]))"

definition prev_end_rule :: "string \<Rightarrow> entry list" where
  "prev_end_rule text =
     (case re_search prev_end_re text of
        None \<Rightarrow> []
      | Some prev_end_match \<Rightarrow>
          [\<lparr>key = ''Previous end year'', val = group prev_end_match 1, comments = []\<rparr>])"

definition prev_desig_rule :: "string \<Rightarrow> entry list" where
  "prev_desig_rule text =
     (case re_search prev_desig_re text of
        None \<Rightarrow> []
      | Some prev_desig_match \<Rightarrow>
          [\<lparr>key = ''Previous Starting Designation'', val = strip (group prev_desig_match 1),
            comments = ''Promoted in 2019''\<rparr>])"

definition extract_professional_info :: "string \<Rightarrow> error + entry list" where
  "extract_professional_info text =
     collect [first_job_rule text, Inr (current_org_rule text), current_join_rule text,
              Inr (current_desig_rule text), Inr (current_sal_rule text),
              Inr (prev_org_rule text), prev_join_rule text, Inr (prev_end_rule text),
              Inr (prev_desig_rule text)]"

subsection \<open>\<open>extract_education_info\<close>\<close>

text \<open>
  Every rule of this method has the same shape: one pattern, one record whose value is
  the first group (stripped or suffixed where the source does so) and whose comment is a
  fixed text.
\<close>

definition one_group_rule ::
  "tok list \<Rightarrow> string \<Rightarrow> (string \<Rightarrow> string) \<Rightarrow> string \<Rightarrow> string \<Rightarrow> entry list" where
  "one_group_rule re k f c text =
     (case re_search re text of
        None \<Rightarrow> []
      | Some m \<Rightarrow> [\<lparr>key = k, val = f (group m 1), comments = c\<rparr>])"

definition hs_re :: "tok list" where
  "hs_re = lit ''high school education at '' @ [Open, Plus (NoneOf [Chr CHR '','']), Close]
     @ lit '', Jaipur''"

definition year_12_re :: "tok list" where
  "year_12_re = lit ''12th standard in '' @ [Open, Rep 4 (One Dg), Close]"

definition score_12_re :: "tok list" where
  "score_12_re = lit ''achieving an outstanding '' @ [Open, Plus (AnyOf [Dg, Chr CHR ''.'']), Close]
     @ lit ''% overall score''"

definition ug_degree_re :: "tok list" where
  "ug_degree_re = lit ''He pursued his ''
     @ [Open] @ lit ''B.Tech'' @ [Plus (NoneOf [Chr CHR ''a'']), Close] @ lit '' at''"

definition ug_college_re :: "tok list" where
  "ug_college_re = lit ''at the prestigious '' @ [Open, Plus (NoneOf [Chr CHR '','']), Close]
     @ lit '', graduating''"

definition ug_year_re :: "tok list" where
  "ug_year_re = lit ''graduating with honors in '' @ [Open, Rep 4 (One Dg), Close]"

definition ug_cgpa_re :: "tok list" where
  "ug_cgpa_re = lit ''with a CGPA of '' @ [Open, Plus (AnyOf [Dg, Chr CHR ''.'']), Close]
     @ lit '' on a 10-point scale''"

definition grad_degree_re :: "tok list" where
  "grad_degree_re = lit ''earned his ''
     @ [Open] @ lit ''M.Tech'' @ [Plus (NoneOf [Chr CHR ''i'']), Close] @ lit '' in''"

definition grad_college_re :: "tok list" where
  "grad_college_re = lit ''His academic excellence continued at ''
     @ [Open, Plus (NoneOf [Chr CHR '','']), Close] @ lit '', where he earned''"

definition grad_year_re :: "tok list" where
  "grad_year_re = lit ''Data Science in '' @ [Open, Rep 4 (One Dg), Close]"

definition grad_cgpa_re :: "tok list" where
  "grad_cgpa_re = lit ''achieving an exceptional CGPA of ''
     @ [Open, Plus (AnyOf [Dg, Chr CHR ''.'']), Close] @ lit '' and scoring ''
     @ [Open, Plus (One Dg), Close] @ lit '' out of '' @ [Open, Plus (One Dg), Close]"

definition extract_education_info :: "string \<Rightarrow> entry list" where
  "extract_education_info text =
     one_group_rule hs_re ''High School'' strip
       ''His core subjects included Mathematics, Physics, Chemistry, and Computer Science, demonstrating his early aptitude for technical disciplines.'' text
     @ one_group_rule year_12_re ''12th standard pass out year'' id ''Outstanding achievement'' text
     @ one_group_rule score_12_re ''12th overall board score'' (\<lambda>g. g @ ''%'') [] text
     @ one_group_rule ug_degree_re ''Undergraduate degree'' strip [] text
     @ one_group_rule ug_college_re ''Undergraduate college'' strip [] text
     @ one_group_rule ug_year_re ''Undergraduate year'' id
         ''Graduating with honors and ranking 15th among 120 students in his class.'' text
     @ one_group_rule ug_cgpa_re ''Undergraduate CGPA'' id ''On a 10-point scale'' text
     @ one_group_rule grad_degree_re ''Graduation degree'' strip [] text
     @ one_group_rule grad_college_re ''Graduation college'' strip
         ''Continued academic excellence at IIT Bombay'' text
     @ one_group_rule grad_year_re ''Graduation year'' id [] text
     @ one_group_rule grad_cgpa_re ''Graduation CGPA'' id
         ''Considered exceptional and scoring 95 out of 100 for his final year thesis project'' text"

subsection \<open>\<open>extract_certifications\<close> and \<open>extract_technical_proficiency\<close>\<close>

definition cert_context :: string where
  "cert_context = ''Vijay's commitment to continuous learning is evident through his impressive certification scores. He passed the AWS Solutions Architect exam in 2019 with a score of 920 out of 1000. Pursued in the year 2020 with 875 points.''"

definition certs_tail :: string where
  "certs_tail = '' These certifications complement his practical experience and demonstrate his expertise across multiple technology platforms.''"

definition pmp_re :: "tok list" where
  "pmp_re = lit ''his Project Management Professional certification, obtained in ''
     @ [Open, Rep 4 (One Dg), Close] @ lit '', was achieved with an '' @ lit [CHR 0x22]
     @ [Open, Plus (NoneOf [Chr (CHR 0x22)]), Close] @ lit [CHR 0x22] @ lit '' rating''"

definition safe_re :: "tok list" where
  "safe_re = lit ''his SAFe Agilist certification earned him an outstanding ''
     @ [Open, Plus (One Dg), Close] @ lit ''% score''"

definition pmp_rule :: "string \<Rightarrow> entry list" where
  "pmp_rule text =
     (case re_search pmp_re text of
        None \<Rightarrow> []
      | Some pmp_match \<Rightarrow>
          [\<lparr>key = ''Certifications 3'', val = ''Project Management Professional certification'',
            comments = ''Obtained in '' @ group pmp_match 1 @ '', was achieved with an ''
                       @ [CHR 0x22] @ group pmp_match 2 @ [CHR 0x22] @ '' rating from PMI.''
                       @ certs_tail\<rparr>])"

definition safe_rule :: "string \<Rightarrow> entry list" where
  "safe_rule text =
     (case re_search safe_re text of
        None \<Rightarrow> []
      | Some safe_match \<Rightarrow>
          [\<lparr>key = ''Certifications 4'', val = ''SAFe Agilist'',
            comments = ''Earned him an outstanding '' @ group safe_match 1 @ ''% score.''
                       @ certs_tail\<rparr>])"

definition extract_certifications :: "string \<Rightarrow> entry list" where
  "extract_certifications text =
     [\<lparr>key = ''Certifications 1'', val = ''AWS Solutions Architect'', comments = cert_context\<rparr>,
      \<lparr>key = ''Certifications 2'', val = ''Azure Data Engineer'', comments = cert_context\<rparr>]
     @ pmp_rule text @ safe_rule text"

definition proficiency_context :: string where
  "proficiency_context = ''In terms of technical proficiency, Vijay rates himself highly across various skills, with SQL expertise at a perfect 10 out of 10, reflecting his daily usage since 2012. His Python proficiency scores 9 out of 10, backed by over seven years of practical experience and demonstrate his expertise across multiple technology platforms.''"

definition extract_technical_proficiency :: "string \<Rightarrow> entry list" where
  "extract_technical_proficiency text =
     [\<lparr>key = ''Technical Proficiency'', val = [], comments = proficiency_context\<rparr>]"

section \<open>Tables: the pandas operations the drivers use\<close>

text \<open>
  A data frame is its column labels and its rows. \<open>pd.DataFrame(data)\<close> on a list of
  records has the three columns of the dictionaries; on the empty list it has no column
  at all. \<open>df.empty\<close> holds when an axis has length 0.
\<close>

datatype cell = Num nat | Str string

record dataframe =
  columns :: "string list"
  rows :: "cell list list"

definition DataFrame :: "entry list \<Rightarrow> dataframe" where
  "DataFrame data =
     (if data = [] then \<lparr>columns = [], rows = []\<rparr>
      else \<lparr>columns = [''key'', ''value'', ''comments''],
            rows = map (\<lambda>e. [Str (key e), Str (val e), Str (comments e)]) data\<rparr>)"

definition empty :: "dataframe \<Rightarrow> bool" where
  "empty df = (columns df = [] \<or> rows df = [])"

text \<open>\<open>df[names]\<close>: the named columns in the order asked for; \<open>KeyError\<close> if one is missing.\<close>

definition select :: "string list \<Rightarrow> dataframe \<Rightarrow> error + dataframe" where
  "select names df =
     (if set names \<subseteq> set (columns df)
      then Inr \<lparr>columns = names,
                rows = map (\<lambda>r. map (\<lambda>n. case map_of (zip (columns df) r) n of
                                               Some c \<Rightarrow> c | None \<Rightarrow> Str []) names)
                           (rows df)\<rparr>
      else Inl KeyError)"

text \<open>
  \<open>df.insert(0, name, values)\<close> puts a new first column; pandas raises \<open>ValueError\<close>
  when the number of values is not the number of rows.
\<close>

definition insert_first :: "string \<Rightarrow> cell list \<Rightarrow> dataframe \<Rightarrow> error + dataframe" where
  "insert_first name vals df =
     (if length vals = length (rows df)
      then Inr \<lparr>columns = name # columns df, rows = map (\<lambda>(v, r). v # r) (zip vals (rows df))\<rparr>
      else Inl ValueError)"

text \<open>\<open>df.columns = names\<close> raises \<open>ValueError\<close> unless there is one label per column.\<close>

definition set_columns :: "string list \<Rightarrow> dataframe \<Rightarrow> error + dataframe" where
  "set_columns names df =
     (if length names = length (columns df) then Inr (df\<lparr>columns := names\<rparr>)
      else Inl ValueError)"

text \<open>\<open>range(1, len(df) + 1)\<close> as the values of the sequence column.\<close>

definition row_numbers :: "dataframe \<Rightarrow> cell list" where
  "row_numbers df = map Num [1 ..< length (rows df) + 1]"

text \<open>
  The last two steps of every \<open>process_document\<close>:
  \<^verbatim>\<open>df.insert(0, '#', range(1, len(df) + 1)); df.columns = ['#', 'Key', 'Value', 'Comments']\<close>
\<close>

definition number_and_label :: "dataframe \<Rightarrow> error + dataframe" where
  "number_and_label df =
     (case insert_first ''#'' (row_numbers df) df of
        Inl e \<Rightarrow> Inl e
      | Inr df1 \<Rightarrow> set_columns [''#'', ''Key'', ''Value'', ''Comments''] df1)"

section \<open>The text reader\<close>

text \<open>
  What the PDF library finds is outside the program: either opening or parsing the file
  raises, or there is a list of pages, each of which gives its text or raises when its
  text is extracted.
\<close>

datatype page = PageText string | PageRaises

datatype pdf = Unreadable | Pages "page list"

text \<open>What the program prints, or shows in the form, in the order in which it does so.\<close>

datatype report =
    ErrorReadingPDF
  | ErrorInitializingClient
  | ErrorGeminiAPI
  | ErrorDecodingJSON
  | ErrorUnexpected
  | NoDataExtracted
  | SavedTo string
  | TotalRecords nat

record extractor =
  pdf_path :: pdf
  text_content :: string

text \<open>
  \<open>DocumentExtractor.extract_text_from_pdf\<close>: the loop \<^verbatim>\<open>text += page.extract_text()\<close>.
  An exception anywhere in the \<open>try\<close> block is printed, the method returns the empty
  string and \<open>self.text_content\<close> keeps its value.
\<close>

fun read_pages :: "page list \<Rightarrow> string \<Rightarrow> string option" where
  "read_pages [] text = Some text"
| "read_pages (PageText t # ps) text = read_pages ps (text @ t)"
| "read_pages (PageRaises # ps) text = None"

definition extract_text_from_pdf ::
  "'a extractor_scheme \<Rightarrow> string \<times> 'a extractor_scheme \<times> report list" where
  "extract_text_from_pdf self =
     (case (case pdf_path self of Unreadable \<Rightarrow> None | Pages ps \<Rightarrow> read_pages ps []) of
        Some text \<Rightarrow> (text, self\<lparr>text_content := text\<rparr>, [])
      | None \<Rightarrow> ([], self, [ErrorReadingPDF]))"

text \<open>
  \<open>AIDocumentExtractor.extract_text_from_pdf\<close> (both files):
  \<^verbatim>\<open>page_text = page.extract_text(); if page_text: text += page_text + "\n"\<close>
\<close>

fun ai_read_pages :: "page list \<Rightarrow> string \<Rightarrow> string option" where
  "ai_read_pages [] text = Some text"
| "ai_read_pages (PageText page_text # ps) text =
     ai_read_pages ps (if page_text \<noteq> [] then text @ page_text @ [CHR 0x0A] else text)"
| "ai_read_pages (PageRaises # ps) text = None"

definition ai_extract_text_from_pdf ::
  "'a extractor_scheme \<Rightarrow> string \<times> 'a extractor_scheme \<times> report list" where
  "ai_extract_text_from_pdf self =
     (case (case pdf_path self of Unreadable \<Rightarrow> None | Pages ps \<Rightarrow> ai_read_pages ps []) of
        Some text \<Rightarrow> (text, self\<lparr>text_content := text\<rparr>, [])
      | None \<Rightarrow> ([], self, [ErrorReadingPDF]))"

section \<open>The pattern pipeline: \<open>DocumentExtractor\<close>\<close>

text \<open>A new \<open>DocumentExtractor(pdf_path)\<close> has an empty \<open>text_content\<close>.\<close>

definition DocumentExtractor :: "pdf \<Rightarrow> extractor" where
  "DocumentExtractor p = \<lparr>pdf_path = p, text_content = []\<rparr>"

text \<open>The five extraction methods in the order of \<open>process_document\<close>, on \<open>self.text_content\<close>.\<close>

definition extract_all :: "string \<Rightarrow> error + entry list" where
  "extract_all text =
     collect [extract_personal_info text, extract_professional_info text,
              Inr (extract_education_info text), Inr (extract_certifications text),
              Inr (extract_technical_proficiency text)]"

definition process_document :: "extractor \<Rightarrow> (error + dataframe) \<times> extractor \<times> report list" where
  "process_document self =
     (case extract_text_from_pdf self of
        (text, self1, reports) \<Rightarrow>
          (case extract_all (text_content self1) of
             Inl e \<Rightarrow> (Inl e, self1, reports)
           | Inr all_data \<Rightarrow> (number_and_label (DataFrame all_data), self1, reports)))"

text \<open>
  A written spreadsheet: the sheet name, the table (its labels are the header row), the
  column widths that were set, and the columns whose cells wrap and align to the top.
\<close>

record workbook =
  sheet_name :: string
  sheet :: dataframe
  widths :: "(string \<times> nat) list"
  wrapped :: "string list"

text \<open>
  The export step of \<open>DocumentExtractor.save_to_excel\<close>, that is, what the method does
  with the table once \<open>process_document\<close> has returned it:
  \<^verbatim>\<open>df.to_excel(output_path, index=False); print(f"Data successfully extracted and saved to {output_path}")\<close>
  There is no test on the table: pandas writes the sheet \<open>Sheet1\<close> whatever the table
  holds. The result is the file written (if any) and the reports.
\<close>

definition export_table :: "dataframe \<Rightarrow> string \<Rightarrow> (string \<times> workbook) option \<times> report list" where
  "export_table df output_path =
     (Some (output_path, \<lparr>sheet_name = ''Sheet1'', sheet = df, widths = [], wrapped = []\<rparr>),
      [SavedTo output_path])"

text \<open>
  \<open>DocumentExtractor.save_to_excel\<close>: \<open>process_document\<close>, then the export step. The
  result is the table, the file written (if any) and the reports.
\<close>

definition save_to_excel ::
  "extractor \<Rightarrow> string \<Rightarrow> (error + dataframe) \<times> (string \<times> workbook) option \<times> report list" where
  "save_to_excel self output_path =
     (case process_document self of
        (Inl e, self1, reports) \<Rightarrow> (Inl e, None, reports)
      | (Inr df, self1, reports) \<Rightarrow>
          (case export_table df output_path of
             (file, reports2) \<Rightarrow> (Inr df, file, reports @ reports2)))"

section \<open>The model-backed pipeline: \<open>AIDocumentExtractor\<close>\<close>

text \<open>
  The language-model endpoint is outside the program. A run meets one of these: the
  client cannot be constructed; the call raises \<open>APIError\<close>; the call raises another
  exception; the text of the response is not JSON; the response parses. The request asks
  for an array of objects with the string fields \<open>key\<close>, \<open>value\<close> and \<open>comments\<close>, and
  a parsed response is modelled as such an array.
\<close>

datatype reply = APIError | OtherException | JSONDecodeError | Json "entry list"

record world =
  client_ok :: bool
  generate_content :: "string \<Rightarrow> reply"

record ai_extractor = extractor +
  use_ai :: bool

definition AIDocumentExtractor :: "pdf \<Rightarrow> bool \<Rightarrow> ai_extractor" where
  "AIDocumentExtractor p flag = \<lparr>pdf_path = p, text_content = [], use_ai = flag\<rparr>"

subsection \<open>The command-line variant (\<open>ai_extractor.py\<close>)\<close>

definition ai_prompt_head :: string where
  "ai_prompt_head =
     ''You are a data extraction expert. Extract ALL information from the following document into a structured key-value format.'' @ [CHR 0x0A]
     @ [CHR 0x0A]
     @ ''DOCUMENT TEXT:'' @ [CHR 0x0A]"

definition ai_prompt_tail :: string where
  "ai_prompt_tail =
     [CHR 0x0A]
     @ [CHR 0x0A]
     @ ''INSTRUCTIONS:'' @ [CHR 0x0A]
     @ ''1. Extract **EVERY** piece of information - nothing should be omitted.'' @ [CHR 0x0A]
     @ ''2. Create logical key-value pairs (e.g., '' @ [CHR 0x22] @ ''First Name'' @ [CHR 0x22] @ '' : '' @ [CHR 0x22] @ ''Vijay'' @ [CHR 0x22] @ '').'' @ [CHR 0x0A]
     @ ''3. For each key-value pair, add relevant **CONTEXT** from the document in a '' @ [CHR 0x22] @ ''comments'' @ [CHR 0x22] @ '' field.'' @ [CHR 0x0A]
     @ ''4. Context should be the **EXACT** original sentences from the document that provide additional information.'' @ [CHR 0x0A]
     @ ''5. Preserve original wording - do not paraphrase.'' @ [CHR 0x0A]
     @ ''6. Format dates as DD-MMM-YY (e.g., 15-Mar-89).'' @ [CHR 0x0A]
     @ ''7. The output **MUST** be a JSON array that strictly adheres to the provided schema. Do not add any extra text or markdown wrappers like '' @ [CHR 0x60] @ [CHR 0x60] @ [CHR 0x60] @ ''json.'' @ [CHR 0x0A]
     @ [CHR 0x0A]
     @ ''Extract ALL information systematically covering:'' @ [CHR 0x0A]
     @ ''- Personal details (name, DOB, age, blood group, nationality)'' @ [CHR 0x0A]
     @ ''- Professional history (all jobs, dates, salaries, designations)'' @ [CHR 0x0A]
     @ ''- Education (schools, colleges, degrees, scores, years)'' @ [CHR 0x0A]
     @ ''- Certifications (names, scores, years)'' @ [CHR 0x0A]
     @ ''- Technical skills''"

definition ai_prompt :: "string \<Rightarrow> string" where
  "ai_prompt text = ai_prompt_head @ text @ ai_prompt_tail"

text \<open>
  \<open>extract_with_gemini\<close> returns the records, what it printed, and the prompts it
  submitted to the endpoint (one element per remote call).
\<close>

definition ai_extract_with_gemini ::
  "world \<Rightarrow> ai_extractor \<Rightarrow> entry list \<times> report list \<times> string list" where
  "ai_extract_with_gemini w self =
     (if \<not> client_ok w then ([], [ErrorInitializingClient], [])
      else (let prompt = ai_prompt (text_content self)
            in case generate_content w prompt of
                 Json extracted_data \<Rightarrow> (extracted_data, [], [prompt])
               | APIError \<Rightarrow> ([], [ErrorGeminiAPI], [prompt])
               | JSONDecodeError \<Rightarrow> ([], [ErrorDecodingJSON], [prompt])
               | OtherException \<Rightarrow> ([], [ErrorUnexpected], [prompt])))"

definition rule_based_extraction :: "ai_extractor \<Rightarrow> entry list" where
  "rule_based_extraction self = []"

text \<open>
  The table builder of both model-backed variants:
  \<^verbatim>\<open>df = pd.DataFrame(extracted_data)
  if not df.empty:
      df = df[['key', 'value', 'comments']]
      df.insert(0, '#', range(1, len(df) + 1))
      df.columns = ['#', 'Key', 'Value', 'Comments']\<close>
\<close>

definition ai_build_table :: "entry list \<Rightarrow> error + dataframe" where
  "ai_build_table extracted_data =
     (let df = DataFrame extracted_data
      in if \<not> empty df
         then (case select [''key'', ''value'', ''comments''] df of
                 Inl e \<Rightarrow> Inl e
               | Inr df1 \<Rightarrow> number_and_label df1)
         else Inr df)"

text \<open>
  \<open>process_document\<close> returns the table (or the exception), the object, the reports and
  the prompts submitted.
\<close>

definition ai_process_document ::
  "world \<Rightarrow> ai_extractor \<Rightarrow> (error + dataframe) \<times> ai_extractor \<times> report list \<times> string list" where
  "ai_process_document w self =
     (case ai_extract_text_from_pdf self of
        (text, self1, reports1) \<Rightarrow>
          (case (if use_ai self1 then ai_extract_with_gemini w self1
                 else (rule_based_extraction self1, [], [])) of
             (extracted_data, reports2, calls) \<Rightarrow>
               (ai_build_table extracted_data, self1, reports1 @ reports2, calls)))"

text \<open>
  The export step of \<open>AIDocumentExtractor.save_to_excel\<close>, that is, what the method does
  with the table once \<open>process_document\<close> has returned it: an empty table is reported
  (\<^verbatim>\<open>if df.empty: print("No data extracted. Skipping Excel save."); return df\<close>) and
  nothing is written; otherwise the sheet \<open>Extracted Data\<close> is written with its four
  column widths and the cells of column D wrapped.
\<close>

definition ai_export_table ::
  "dataframe \<Rightarrow> string \<Rightarrow> (string \<times> workbook) option \<times> report list" where
  "ai_export_table df output_path =
     (if empty df then (None, [NoDataExtracted])
      else (Some (output_path,
                  \<lparr>sheet_name = ''Extracted Data'', sheet = df,
                   widths = [(''A'', 5), (''B'', 35), (''C'', 30), (''D'', 100)],
                   wrapped = [''D'']\<rparr>),
            [SavedTo output_path, TotalRecords (length (rows df))]))"

text \<open>\<open>AIDocumentExtractor.save_to_excel\<close>: \<open>process_document\<close>, then the export step.\<close>

definition ai_save_to_excel ::
  "world \<Rightarrow> ai_extractor \<Rightarrow> string \<Rightarrow>
   (error + dataframe) \<times> (string \<times> workbook) option \<times> report list \<times> string list" where
  "ai_save_to_excel w self output_path =
     (case ai_process_document w self of
        (Inl e, self1, reports, calls) \<Rightarrow> (Inl e, None, reports, calls)
      | (Inr df, self1, reports, calls) \<Rightarrow>
          (case ai_export_table df output_path of
             (file, reports2) \<Rightarrow> (Inr df, file, reports @ reports2, calls)))"

subsection \<open>The form variant (\<open>app.py\<close>)\<close>

definition app_prompt_head :: string where
  "app_prompt_head =
     ''You are a data extraction expert. Extract ALL information from the following document into a structured key-value format.'' @ [CHR 0x0A]
     @ [CHR 0x0A]
     @ ''DOCUMENT TEXT:'' @ [CHR 0x0A]"

definition app_prompt_tail :: string where
  "app_prompt_tail =
     [CHR 0x0A]
     @ [CHR 0x0A]
     @ ''INSTRUCTIONS:'' @ [CHR 0x0A]
     @ ''1. Extract **EVERY** piece of information - nothing should be omitted.'' @ [CHR 0x0A]
     @ ''2. Create logical key-value pairs (e.g., '' @ [CHR 0x22] @ ''First Name'' @ [CHR 0x22] @ '' : '' @ [CHR 0x22] @ ''Vijay'' @ [CHR 0x22] @ '').'' @ [CHR 0x0A]
     @ ''3. For each key-value pair, add relevant **CONTEXT** from the document in a '' @ [CHR 0x22] @ ''comments'' @ [CHR 0x22] @ '' field.'' @ [CHR 0x0A]
     @ ''4. Context in '' @ [CHR 0x22] @ ''comments'' @ [CHR 0x22] @ '' should be the **EXACT** original sentences from the document that provide additional information. Do not modify or summarize these sentences.'' @ [CHR 0x0A]
     @ ''5. Preserve original wording - do not paraphrase.'' @ [CHR 0x0A]
     @ ''6. Format dates as DD-MMM-YY (e.g., 15-Mar-89).'' @ [CHR 0x0A]
     @ ''7. The output **MUST** be a JSON array that strictly adheres to the provided schema. Do not add any extra text or markdown wrappers like '' @ [CHR 0x60] @ [CHR 0x60] @ [CHR 0x60] @ ''json.'' @ [CHR 0x0A]
     @ ''Extract ALL information systematically covering:'' @ [CHR 0x0A]
     @ ''- Personal details (name, DOB, age, blood group, nationality)'' @ [CHR 0x0A]
     @ ''- Professional history (all jobs, dates, salaries, designations)'' @ [CHR 0x0A]
     @ ''- Education (schools, colleges, degrees, scores, years)'' @ [CHR 0x0A]
     @ ''- Certifications (names, scores, years)'' @ [CHR 0x0A]
     @ ''- Technical skills''"
definition app_prompt :: "string \<Rightarrow> string" where
  "app_prompt text = app_prompt_head @ text @ app_prompt_tail"

text \<open>
  The body of \<open>extract_with_gemini\<close> in \<open>app.py\<close>. A client that cannot be
  constructed gives the empty list with no message (the source comments: handled at the
  UI level, by the API key check); the other failures are shown with \<open>st.error\<close>.
\<close>

definition app_extract_body ::
  "world \<Rightarrow> ai_extractor \<Rightarrow> entry list \<times> report list \<times> string list" where
  "app_extract_body w self =
     (if \<not> client_ok w then ([], [], [])
      else (let prompt = app_prompt (text_content self)
            in case generate_content w prompt of
                 Json extracted_data \<Rightarrow> (extracted_data, [], [prompt])
               | APIError \<Rightarrow> ([], [ErrorGeminiAPI], [prompt])
               | JSONDecodeError \<Rightarrow> ([], [ErrorDecodingJSON], [prompt])
               | OtherException \<Rightarrow> ([], [ErrorUnexpected], [prompt])))"

text \<open>
  The method is decorated with \<open>@st.cache_data\<close>. Streamlit keys a cached call by the
  values of the arguments of the call, leaving out every parameter whose name begins with
  an underscore; it stores the returned value with the messages shown during the call
  and replays both on a hit, without running the body. An argument is given here as the
  name of its parameter and the text that stands for its value.
\<close>

definition cache_key :: "(string \<times> string) list \<Rightarrow> string list" where
  "cache_key args = map snd (filter (\<lambda>(name, v). take 1 name \<noteq> ''_'') args)"

type_synonym cache = "string list \<rightharpoonup> entry list \<times> report list"

text \<open>
  The only parameter of \<^verbatim>\<open>def extract_with_gemini(_self)\<close> is \<open>_self\<close>; what the
  body reads of it is \<open>text_content\<close>. The result carries the cache after the call.
\<close>

definition app_extract_with_gemini ::
  "cache \<Rightarrow> world \<Rightarrow> ai_extractor \<Rightarrow> (entry list \<times> report list \<times> string list) \<times> cache" where
  "app_extract_with_gemini c w self =
     (let k = cache_key [(''_self'', text_content self)]
      in case c k of
           Some (data, reports) \<Rightarrow> ((data, reports, []), c)
         | None \<Rightarrow>
             (case app_extract_body w self of
                (data, reports, calls) \<Rightarrow> ((data, reports, calls), c(k \<mapsto> (data, reports)))))"

definition app_process_document ::
  "cache \<Rightarrow> world \<Rightarrow> ai_extractor \<Rightarrow>
   ((error + dataframe) \<times> ai_extractor \<times> report list \<times> string list) \<times> cache" where
  "app_process_document c w self =
     (case ai_extract_text_from_pdf self of
        (text, self1, reports1) \<Rightarrow>
          (case (if use_ai self1 \<and> text_content self1 \<noteq> []
                 then app_extract_with_gemini c w self1
                 else (([], [], []), c)) of
             ((extracted_data, reports2, calls), c1) \<Rightarrow>
               ((ai_build_table extracted_data, self1, reports1 @ reports2, calls), c1)))"

section \<open>Notions used to state the properties\<close>

text \<open>
  The rows a table builder is expected to produce for a list of records: row \<open>i\<close>
  (counted from 0) holds the sequence number \<open>i + 1\<close> and the three fields of the
  \<open>i\<close>-th record.
\<close>

definition numbered_rows :: "entry list \<Rightarrow> cell list list" where
  "numbered_rows data =
     map (\<lambda>i. [Num (Suc i), Str (key (data ! i)), Str (val (data ! i)), Str (comments (data ! i))])
         [0 ..< length data]"

text \<open>The three records of the pattern extractor that do not depend on the document.\<close>

definition fixed_records :: "entry list" where
  "fixed_records =
     [\<lparr>key = ''Certifications 1'', val = ''AWS Solutions Architect'', comments = cert_context\<rparr>,
      \<lparr>key = ''Certifications 2'', val = ''Azure Data Engineer'', comments = cert_context\<rparr>,
      \<lparr>key = ''Technical Proficiency'', val = [], comments = proficiency_context\<rparr>]"

text \<open>
  Two one-page documents and an endpoint that answers each of them with one record of
  its own, for the examples below.
\<close>

definition vijay_entry :: entry where
  "vijay_entry = \<lparr>key = ''First Name'', val = ''Vijay'', comments = []\<rparr>"

definition anita_entry :: entry where
  "anita_entry = \<lparr>key = ''First Name'', val = ''Anita'', comments = []\<rparr>"

definition vijay_pdf :: pdf where
  "vijay_pdf = Pages [PageText ''Vijay Kumar was born'']"

definition anita_pdf :: pdf where
  "anita_pdf = Pages [PageText ''Anita Rao was born'']"

definition two_documents_world :: world where
  "two_documents_world =
     \<lparr>client_ok = True,
      generate_content =
        (\<lambda>prompt. if prompt = app_prompt (''Vijay Kumar was born'' @ [CHR 0x0A])
                  then Json [vijay_entry] else Json [anita_entry])\<rparr>"

text \<open>
  The three failures of the model-backed extraction for a prompt, and the message each
  variant gives for them.
\<close>

datatype failure = ClientConstruction | RemoteCall | ResponseParsing

fun fails_with :: "world \<Rightarrow> string \<Rightarrow> failure \<Rightarrow> bool" where
  "fails_with w prompt ClientConstruction = (\<not> client_ok w)"
| "fails_with w prompt RemoteCall = (client_ok w \<and> generate_content w prompt = APIError)"
| "fails_with w prompt ResponseParsing =
     (client_ok w \<and> generate_content w prompt = JSONDecodeError)"

fun cli_reports :: "failure \<Rightarrow> report list" where
  "cli_reports ClientConstruction = [ErrorInitializingClient]"
| "cli_reports RemoteCall = [ErrorGeminiAPI]"
| "cli_reports ResponseParsing = [ErrorDecodingJSON]"

fun form_reports :: "failure \<Rightarrow> report list" where
  "form_reports ClientConstruction = []"
| "form_reports RemoteCall = [ErrorGeminiAPI]"
| "form_reports ResponseParsing = [ErrorDecodingJSON]"

text \<open>The remote calls of a failed run: none without a client, otherwise the one call.\<close>

fun calls_made :: "failure \<Rightarrow> string \<Rightarrow> string list" where
  "calls_made ClientConstruction prompt = []"
| "calls_made RemoteCall prompt = [prompt]"
| "calls_made ResponseParsing prompt = [prompt]"

text \<open>The text a new extractor holds after reading its PDF.\<close>

definition text_read :: "pdf \<Rightarrow> string" where
  "text_read p = text_content (fst (snd (ai_extract_text_from_pdf (AIDocumentExtractor p True))))"

definition no_client_world :: world where
  "no_client_world = \<lparr>client_ok = False, generate_content = (\<lambda>prompt. Json [vijay_entry])\<rparr>"

definition api_error_world :: world where
  "api_error_world = \<lparr>client_ok = True, generate_content = (\<lambda>prompt. APIError)\<rparr>"

text \<open>
  The shape \<open>DD-Mon-YY\<close>: two digits, a hyphen, one of the twelve abbreviated month
  names, a hyphen, two digits. A calendar date: a year from 1 on, a month from 1 to 12
  and a day that this month has in this year.
\<close>

definition dd_mon_yy :: "string \<Rightarrow> bool" where
  "dd_mon_yy v =
     (case v of
        [d1, d2, h1, m1, m2, m3, h2, y1, y2] \<Rightarrow>
          isdigit d1 \<and> isdigit d2 \<and> h1 = CHR ''-'' \<and> [m1, m2, m3] \<in> set month_abbr
          \<and> h2 = CHR ''-'' \<and> isdigit y1 \<and> isdigit y2
      | _ \<Rightarrow> False)"

definition calendar_date :: "date \<Rightarrow> bool" where
  "calendar_date d =
     (1 \<le> year d \<and> 1 \<le> month d \<and> month d \<le> 12 \<and> 1 \<le> day d
      \<and> day d \<le> days_in_month (year d) (month d))"

text \<open>The four rules that read a date, each with its pattern and the key of its date record.\<close>

definition date_rules :: "(tok list \<times> (string \<Rightarrow> error + entry list) \<times> string) list" where
  "date_rules =
     [(dob_re, dob_rule, ''Date of Birth''),
      (first_job_re, first_job_rule, ''Joining Date of first professional role''),
      (current_join_re, current_join_rule, ''Current Joining Date''),
      (prev_join_re, prev_join_rule, ''Previous Joining Date'')]"

definition birth_sentence :: string where
  "birth_sentence = ''Vijay Kumar was born on March 15, 1989, in Jaipur, Rajasthan''"

section \<open>Properties\<close>

subsection \<open>Groups of a match\<close>

lemma rmatch_groups:
  "rmatch p s opn caps = Some (caps', rest) \<Longrightarrow> length caps' = length caps + count_list p Close"
  by (induction p s opn caps arbitrary: caps' rest rule: rmatch.induct)
     (auto split: if_splits option.splits)

lemma re_search_groups: "re_search p s = Some m \<Longrightarrow> length (groups m) = count_list p Close"
  by (induction s) (auto split: option.splits dest: rmatch_groups)

lemma pattern_groups:
  "count_list name_re Close = 1" "count_list dob_re Close = 1" "count_list birth_re Close = 2"
  "count_list age_re Close = 2" "count_list blood_re Close = 1"
  "count_list nationality_re Close = 1" "count_list first_job_re Close = 3"
  "count_list current_org_re Close = 1" "count_list current_join_re Close = 1"
  "count_list current_desig_re Close = 1" "count_list current_sal_re Close = 1"
  "count_list prev_org_re Close = 1" "count_list prev_join_re Close = 1"
  "count_list prev_end_re Close = 1" "count_list prev_desig_re Close = 1"
  "count_list hs_re Close = 1" "count_list year_12_re Close = 1"
  "count_list score_12_re Close = 1" "count_list ug_degree_re Close = 1"
  "count_list ug_college_re Close = 1" "count_list ug_year_re Close = 1"
  "count_list ug_cgpa_re Close = 1" "count_list grad_degree_re Close = 1"
  "count_list grad_college_re Close = 1" "count_list grad_year_re Close = 1"
  "count_list grad_cgpa_re Close = 3" "count_list pmp_re Close = 2"
  "count_list safe_re Close = 1"
  by code_simp+

lemma group_in_range:
  "re_search p s = Some m \<Longrightarrow> 1 \<le> i \<Longrightarrow> i \<le> count_list p Close \<Longrightarrow>
   group m i = groups m ! (i - 1)"
  by (simp add: group_def re_search_groups)

subsection \<open>Tables: basic facts\<close>

lemma DataFrame_Nil: "DataFrame [] = \<lparr>columns = [], rows = []\<rparr>"
  by (simp add: DataFrame_def)

lemma DataFrame_Cons:
  "data \<noteq> [] \<Longrightarrow> DataFrame data =
     \<lparr>columns = [''key'', ''value'', ''comments''],
      rows = map (\<lambda>e. [Str (key e), Str (val e), Str (comments e)]) data\<rparr>"
  by (simp add: DataFrame_def)

lemma select_DataFrame:
  "data \<noteq> [] \<Longrightarrow> select [''key'', ''value'', ''comments''] (DataFrame data) = Inr (DataFrame data)"
  by (simp add: DataFrame_Cons select_def)

lemma zip_numbers:
  "map (\<lambda>(v, r). v # r) (zip (map Num [Suc 0 ..< Suc (length data)])
        (map (\<lambda>e. [Str (key e), Str (val e), Str (comments e)]) data))
   = numbered_rows data"
  unfolding numbered_rows_def
  by (rule nth_equalityI) (simp_all del: upt_Suc)

lemma number_and_label_DataFrame:
  "data \<noteq> [] \<Longrightarrow> number_and_label (DataFrame data)
     = Inr \<lparr>columns = [''#'', ''Key'', ''Value'', ''Comments''], rows = numbered_rows data\<rparr>"
  using zip_numbers [of data]
  by (simp add: DataFrame_Cons number_and_label_def insert_first_def row_numbers_def set_columns_def
           del: upt_Suc)

lemma ai_build_table_Nil: "ai_build_table [] = Inr \<lparr>columns = [], rows = []\<rparr>"
  by (simp add: ai_build_table_def DataFrame_def empty_def)

lemma ai_build_table_Cons:
  "data \<noteq> [] \<Longrightarrow> ai_build_table data
     = Inr \<lparr>columns = [''#'', ''Key'', ''Value'', ''Comments''], rows = numbered_rows data\<rparr>"
  by (simp add: ai_build_table_def Let_def select_DataFrame number_and_label_DataFrame)
     (simp add: DataFrame_Cons empty_def)

lemma numbered_rows_nth:
  "i < length data \<Longrightarrow> numbered_rows data ! i
     = [Num (i + 1), Str (key (data ! i)), Str (val (data ! i)), Str (comments (data ! i))]"
  by (simp add: numbered_rows_def)

lemma length_numbered_rows: "length (numbered_rows data) = length data"
  by (simp add: numbered_rows_def)


subsection \<open>The pattern pipeline never builds an empty table\<close>




lemma process_document_on_text:
  assumes "extract_text_from_pdf self = (t, self1, reports)"
    and "extract_all (text_content self1) = Inr data"
  shows "fst (process_document self) = number_and_label (DataFrame data)"
  using assms by (simp add: process_document_def)

subsection \<open>The pattern extractor on the empty text\<close>

lemma extract_all_Nil: "extract_all [] = Inr fixed_records"
  by code_simp

lemma personal_Nil: "extract_personal_info [] = Inr []"
  by code_simp

lemma professional_Nil: "extract_professional_info [] = Inr []"
  by code_simp

lemma education_Nil: "extract_education_info [] = []"
  by code_simp

lemma fixed_records_nonempty: "fixed_records \<noteq> []"
  by (simp add: fixed_records_def)

lemma extract_text_fresh:
  "extract_text_from_pdf (DocumentExtractor p) = (t, self1, reports) \<Longrightarrow> text_content self1 = t"
  by (auto simp: extract_text_from_pdf_def DocumentExtractor_def split: option.splits pdf.splits)

text \<open>
  Claim C3, as amended. When the text reader of the pattern pipeline returns the empty
  string, the later stages do not fail, and the pattern-derived rules emit nothing; but
  the table is not empty: the extractor still emits its three fixed records
  (Certifications 1, Certifications 2, Technical Proficiency), and the table has exactly
  these three rows, numbered 1 to 3.
\<close>

theorem empty_text_gives_fixed_records:
  assumes "fst (extract_text_from_pdf (DocumentExtractor p)) = []"
  shows "extract_personal_info [] = Inr []
       \<and> extract_professional_info [] = Inr []
       \<and> extract_education_info [] = []
       \<and> extract_all [] = Inr fixed_records
       \<and> fst (process_document (DocumentExtractor p))
           = Inr \<lparr>columns = [''#'', ''Key'', ''Value'', ''Comments''],
                  rows = numbered_rows fixed_records\<rparr>
       \<and> length (numbered_rows fixed_records) = 3"
proof -
  obtain t self1 reports where
    r: "extract_text_from_pdf (DocumentExtractor p) = (t, self1, reports)"
    by (cases "extract_text_from_pdf (DocumentExtractor p)") auto
  with assms have "text_content self1 = []"
    by (simp add: extract_text_fresh)
  then have "extract_all (text_content self1) = Inr fixed_records"
    by (simp add: extract_all_Nil)
  with r have "fst (process_document (DocumentExtractor p))
               = number_and_label (DataFrame fixed_records)"
    by (rule process_document_on_text)
  then show ?thesis
    by (simp add: number_and_label_DataFrame fixed_records_nonempty personal_Nil
          professional_Nil education_Nil extract_all_Nil length_numbered_rows)
       (simp add: fixed_records_def)
qed

theorem empty_text_gives_fixed_records_witness:
  "fst (extract_text_from_pdf (DocumentExtractor (Pages []))) = []
   \<and> fst (process_document (DocumentExtractor (Pages [])))
       = Inr \<lparr>columns = [''#'', ''Key'', ''Value'', ''Comments''],
              rows = [[Num 1, Str ''Certifications 1'', Str ''AWS Solutions Architect'', Str cert_context],
                      [Num 2, Str ''Certifications 2'', Str ''Azure Data Engineer'', Str cert_context],
                      [Num 3, Str ''Technical Proficiency'', Str [], Str proficiency_context]]\<rparr>"
proof -
  have h: "fst (extract_text_from_pdf (DocumentExtractor (Pages []))) = []"
    by (simp add: extract_text_from_pdf_def DocumentExtractor_def)
  have n: "numbered_rows fixed_records
           = [[Num 1, Str ''Certifications 1'', Str ''AWS Solutions Architect'', Str cert_context],
              [Num 2, Str ''Certifications 2'', Str ''Azure Data Engineer'', Str cert_context],
              [Num 3, Str ''Technical Proficiency'', Str [], Str proficiency_context]]"
    by (simp add: numbered_rows_def fixed_records_def upt_rec)
  show ?thesis
    using h empty_text_gives_fixed_records [OF h] n by simp
qed

text \<open>
  The claim as stated fails on a PDF with no page: the extractor emits records, and the
  table is neither the four-column table with no row nor the empty frame.
\<close>

theorem empty_text_counterexample:
  "extract_all [] \<noteq> Inr []
   \<and> fst (process_document (DocumentExtractor (Pages [])))
       \<noteq> Inr \<lparr>columns = [''#'', ''Key'', ''Value'', ''Comments''], rows = []\<rparr>
   \<and> fst (process_document (DocumentExtractor (Pages [])))
       \<noteq> Inr \<lparr>columns = [], rows = []\<rparr>"
proof -
  have "fst (process_document (DocumentExtractor (Pages [])))
        = number_and_label (DataFrame fixed_records)"
    by (rule process_document_on_text [where t = "[]" and reports = "[]"
          and ?self1.0 = "DocumentExtractor (Pages [])"])
       (simp_all add: extract_text_from_pdf_def DocumentExtractor_def extract_all_Nil)
  then show ?thesis
    by (simp add: number_and_label_DataFrame fixed_records_nonempty extract_all_Nil)
       (simp add: fixed_records_def numbered_rows_def)
qed

subsection \<open>The table builder\<close>

text \<open>
  Claim C6, as amended. For every non-empty list of \<open>N\<close> records, both table builders
  (the one of the pattern pipeline and the one of the model-backed pipelines) produce
  the columns \<open>#\<close>, \<open>Key\<close>, \<open>Value\<close>, \<open>Comments\<close> in this order and exactly \<open>N\<close> rows,
  where row \<open>i\<close> holds the number \<open>i + 1\<close> and the fields of the \<open>i\<close>-th record: nothing
  is reordered, merged or dropped. For the empty list the model-backed builder returns
  the empty frame, which has no row and no column.
\<close>

theorem table_builder_numbers_rows:
  "(data \<noteq> [] \<longrightarrow>
      ai_build_table data
        = Inr \<lparr>columns = [''#'', ''Key'', ''Value'', ''Comments''], rows = numbered_rows data\<rparr>
    \<and> number_and_label (DataFrame data)
        = Inr \<lparr>columns = [''#'', ''Key'', ''Value'', ''Comments''], rows = numbered_rows data\<rparr>)
   \<and> length (numbered_rows data) = length data
   \<and> (\<forall>i < length data. numbered_rows data ! i
          = [Num (i + 1), Str (key (data ! i)), Str (val (data ! i)), Str (comments (data ! i))])
   \<and> ai_build_table [] = Inr \<lparr>columns = [], rows = []\<rparr>"
  by (simp add: ai_build_table_Cons number_and_label_DataFrame length_numbered_rows
        numbered_rows_nth ai_build_table_Nil)

theorem table_builder_numbers_rows_witness:
  "[\<lparr>key = ''First Name'', val = ''Vijay'', comments = []\<rparr>,
    \<lparr>key = ''Last Name'', val = ''Kumar'', comments = []\<rparr>,
    \<lparr>key = ''First Name'', val = ''Vijay'', comments = []\<rparr>] \<noteq> []
   \<and> ai_build_table [\<lparr>key = ''First Name'', val = ''Vijay'', comments = []\<rparr>,
                      \<lparr>key = ''Last Name'', val = ''Kumar'', comments = []\<rparr>,
                      \<lparr>key = ''First Name'', val = ''Vijay'', comments = []\<rparr>]
       = Inr \<lparr>columns = [''#'', ''Key'', ''Value'', ''Comments''],
              rows = [[Num 1, Str ''First Name'', Str ''Vijay'', Str []],
                      [Num 2, Str ''Last Name'', Str ''Kumar'', Str []],
                      [Num 3, Str ''First Name'', Str ''Vijay'', Str []]]\<rparr>"
  using table_builder_numbers_rows
    [of "[\<lparr>key = ''First Name'', val = ''Vijay'', comments = []\<rparr>,
          \<lparr>key = ''Last Name'', val = ''Kumar'', comments = []\<rparr>,
          \<lparr>key = ''First Name'', val = ''Vijay'', comments = []\<rparr>]"]
  by (simp add: numbered_rows_def upt_rec)

text \<open>
  The claim as stated fails for \<open>N = 0\<close>: the table built from the empty list does not
  have the four columns.
\<close>

theorem table_builder_empty_counterexample:
  "ai_build_table [] \<noteq> Inr \<lparr>columns = [''#'', ''Key'', ''Value'', ''Comments''], rows = []\<rparr>"
  by (simp add: ai_build_table_Nil)

subsection \<open>The exporter\<close>










text \<open>
  For a PDF that cannot be read the pattern variant reports the read error and still
  writes the three fixed records.
\<close>

lemma pattern_unreadable_writes:
  "fst (snd (save_to_excel (DocumentExtractor Unreadable) ''Output.xlsx''))
     = Some (''Output.xlsx'',
             \<lparr>sheet_name = ''Sheet1'',
              sheet = \<lparr>columns = [''#'', ''Key'', ''Value'', ''Comments''],
                       rows = numbered_rows fixed_records\<rparr>,
              widths = [], wrapped = []\<rparr>)
   \<and> snd (snd (save_to_excel (DocumentExtractor Unreadable) ''Output.xlsx''))
     = [ErrorReadingPDF, SavedTo ''Output.xlsx'']"
  by (simp add: save_to_excel_def export_table_def process_document_def
        extract_text_from_pdf_def DocumentExtractor_def extract_all_Nil
        number_and_label_DataFrame fixed_records_nonempty)

subsection \<open>The fallback of the command-line variant\<close>

lemma ai_extract_text_use_ai:
  "ai_extract_text_from_pdf self = (t, self1, reports) \<Longrightarrow> use_ai self1 = use_ai self"
  by (auto simp: ai_extract_text_from_pdf_def split: option.splits pdf.splits)

text \<open>
  Claim C10. In \<open>ai_extractor.py\<close>, when the use-AI flag is false, the rule-based
  fallback returns the empty list for every document; \<open>process_document\<close> then returns
  the empty table without a remote call, and \<open>save_to_excel\<close> reports that no data was
  extracted and writes no file.
\<close>

theorem fallback_gives_empty_table:
  assumes "\<not> use_ai self"
  shows "rule_based_extraction self = []
       \<and> fst (ai_process_document w self) = Inr \<lparr>columns = [], rows = []\<rparr>
       \<and> snd (snd (snd (ai_process_document w self))) = []
       \<and> fst (ai_save_to_excel w self output_path) = Inr \<lparr>columns = [], rows = []\<rparr>
       \<and> fst (snd (ai_save_to_excel w self output_path)) = None
       \<and> NoDataExtracted \<in> set (fst (snd (snd (ai_save_to_excel w self output_path))))"
proof -
  obtain t self1 reports where r: "ai_extract_text_from_pdf self = (t, self1, reports)"
    by (cases "ai_extract_text_from_pdf self") auto
  with assms have u: "\<not> use_ai self1"
    by (simp add: ai_extract_text_use_ai)
  have p: "ai_process_document w self = (Inr \<lparr>columns = [], rows = []\<rparr>, self1, reports, [])"
    using r u by (simp add: ai_process_document_def rule_based_extraction_def ai_build_table_Nil)
  have s: "ai_save_to_excel w self output_path
           = (Inr \<lparr>columns = [], rows = []\<rparr>, None, reports @ [NoDataExtracted], [])"
    using p by (simp add: ai_save_to_excel_def ai_export_table_def empty_def)
  show ?thesis
    using p s by (simp add: rule_based_extraction_def)
qed

theorem fallback_gives_empty_table_witness:
  "\<not> use_ai (AIDocumentExtractor (Pages [PageText ''Vijay Kumar was born'']) False)
   \<and> fst (ai_process_document
            \<lparr>client_ok = True,
             generate_content = (\<lambda>p. Json [\<lparr>key = ''k'', val = ''v'', comments = []\<rparr>])\<rparr>
            (AIDocumentExtractor (Pages [PageText ''Vijay Kumar was born'']) False))
       = Inr \<lparr>columns = [], rows = []\<rparr>
   \<and> fst (snd (ai_save_to_excel
            \<lparr>client_ok = True,
             generate_content = (\<lambda>p. Json [\<lparr>key = ''k'', val = ''v'', comments = []\<rparr>])\<rparr>
            (AIDocumentExtractor (Pages [PageText ''Vijay Kumar was born'']) False)
            ''Output.xlsx''))
       = None"
  using fallback_gives_empty_table
    [of "AIDocumentExtractor (Pages [PageText ''Vijay Kumar was born'']) False"
        "\<lparr>client_ok = True,
          generate_content = (\<lambda>p. Json [\<lparr>key = ''k'', val = ''v'', comments = []\<rparr>])\<rparr>"
        "''Output.xlsx''"]
  by (simp add: AIDocumentExtractor_def)

subsection \<open>The text readers\<close>

lemma read_pages_texts: "read_pages (map PageText ts) acc = Some (acc @ concat ts)"
  by (induction ts arbitrary: acc) simp_all

lemma ai_read_pages_texts:
  "ai_read_pages (map PageText ts) acc
   = Some (acc @ concat (map (\<lambda>t. if t \<noteq> [] then t @ [CHR 0x0A] else []) ts))"
  by (induction ts arbitrary: acc) simp_all

lemma ai_read_pages_raises: "PageRaises \<in> set ps \<Longrightarrow> ai_read_pages ps acc = None"
  by (induction ps acc rule: ai_read_pages.induct) auto

lemma read_pages_raises: "PageRaises \<in> set ps \<Longrightarrow> read_pages ps acc = None"
  by (induction ps acc rule: read_pages.induct) auto

lemma ai_reader_joins_pages:
  "ai_extract_text_from_pdf (AIDocumentExtractor (Pages (map PageText ts)) flag)
   = (concat (map (\<lambda>t. if t \<noteq> [] then t @ [CHR 0x0A] else []) ts),
      \<lparr>pdf_path = Pages (map PageText ts),
       text_content = concat (map (\<lambda>t. if t \<noteq> [] then t @ [CHR 0x0A] else []) ts),
       use_ai = flag\<rparr>, [])"
  by (simp add: ai_extract_text_from_pdf_def AIDocumentExtractor_def ai_read_pages_texts)

lemma ai_reader_failure:
  "p = Unreadable \<or> (\<exists>ps. p = Pages ps \<and> PageRaises \<in> set ps) \<Longrightarrow>
   ai_extract_text_from_pdf (AIDocumentExtractor p flag)
   = ([], AIDocumentExtractor p flag, [ErrorReadingPDF])"
  by (auto simp: ai_extract_text_from_pdf_def AIDocumentExtractor_def ai_read_pages_raises)

lemma reader_failure:
  "p = Unreadable \<or> (\<exists>ps. p = Pages ps \<and> PageRaises \<in> set ps) \<Longrightarrow>
   extract_text_from_pdf (DocumentExtractor p) = ([], DocumentExtractor p, [ErrorReadingPDF])"
  by (auto simp: extract_text_from_pdf_def DocumentExtractor_def read_pages_raises)

text \<open>
  Claim C9 (the code departs from it). The readers of \<open>ai_extractor.py\<close> and \<open>app.py\<close>
  append a newline after the text of each page and skip a page without text, and every
  reader returns the empty string and reports when reading fails (the lemmas above). The
  reader of \<open>document_extractor.py\<close> appends no newline: on a PDF whose two pages read
  \<open>Vijay Kumar\<close> and \<open>was born\<close> it returns the two texts run together, where the
  model-backed reader returns each followed by a newline.
\<close>

theorem pattern_reader_omits_newlines:
  "fst (extract_text_from_pdf (DocumentExtractor (Pages [PageText ''Vijay Kumar'', PageText ''was born''])))
     = ''Vijay Kumarwas born''
   \<and> fst (ai_extract_text_from_pdf
            (AIDocumentExtractor (Pages [PageText ''Vijay Kumar'', PageText ''was born'']) True))
     = ''Vijay Kumar'' @ [CHR 0x0A] @ ''was born'' @ [CHR 0x0A]"
  by (simp add: extract_text_from_pdf_def DocumentExtractor_def ai_extract_text_from_pdf_def
        AIDocumentExtractor_def)

subsection \<open>Remote calls\<close>

lemma app_skips_call:
  assumes "\<not> flag \<or> fst (ai_extract_text_from_pdf (AIDocumentExtractor p flag)) = []"
  shows "fst (fst (app_process_document c w (AIDocumentExtractor p flag)))
           = Inr \<lparr>columns = [], rows = []\<rparr>
       \<and> snd (snd (snd (fst (app_process_document c w (AIDocumentExtractor p flag))))) = []
       \<and> snd (app_process_document c w (AIDocumentExtractor p flag)) = c"
  using assms
  by (auto simp: app_process_document_def ai_extract_text_from_pdf_def AIDocumentExtractor_def
        ai_build_table_Nil split: option.splits pdf.splits)

text \<open>
  Claim C4 (the code departs from it). With the flag off, no variant calls the endpoint,
  and the form variant does not call it on an empty text either (\<open>app_skips_call\<close>, and
  claim C10 for the command line). The command-line variant tests the flag only: on a PDF
  with no page and the flag on, it submits the prompt built from the empty text, and
  returns whatever records the endpoint answers.
\<close>

theorem cli_calls_endpoint_on_empty_text:
  "ai_process_document two_documents_world (AIDocumentExtractor (Pages []) True)
   = (Inr \<lparr>columns = [''#'', ''Key'', ''Value'', ''Comments''],
           rows = [[Num 1, Str ''First Name'', Str ''Anita'', Str []]]\<rparr>,
      \<lparr>pdf_path = Pages [], text_content = [], use_ai = True\<rparr>,
      [],
      [ai_prompt []])"
  by code_simp

subsection \<open>The cache\<close>

lemma cache_key_self: "cache_key [(''_self'', t)] = []"
  by (simp add: cache_key_def)

lemma cached_result_reused:
  "c [] = Some (data, reports) \<Longrightarrow> app_extract_with_gemini c w self = ((data, reports, []), c)"
  by (simp add: app_extract_with_gemini_def cache_key_self)


text \<open>
  Claim C5 (the code departs from it). The key of the cached call is empty, whatever the
  document text (\<open>cache_key_self\<close>), so a cached result is reused for every later
  document (\<open>cached_result_reused\<close>). After a run on a first document, a run on a second,
  different document makes no remote call and returns the records of the first; the
  extractor without the cache returns the records of the second.
\<close>

theorem cache_shared_across_documents:
  "fst (fst (app_process_document
        (snd (app_process_document Map.empty two_documents_world (AIDocumentExtractor vijay_pdf True)))
        two_documents_world (AIDocumentExtractor anita_pdf True)))
     = Inr \<lparr>columns = [''#'', ''Key'', ''Value'', ''Comments''],
            rows = [[Num 1, Str ''First Name'', Str ''Vijay'', Str []]]\<rparr>
   \<and> snd (snd (snd (fst (app_process_document
        (snd (app_process_document Map.empty two_documents_world (AIDocumentExtractor vijay_pdf True)))
        two_documents_world (AIDocumentExtractor anita_pdf True)))))
     = []
   \<and> fst (fst (app_process_document Map.empty two_documents_world (AIDocumentExtractor anita_pdf True)))
     = Inr \<lparr>columns = [''#'', ''Key'', ''Value'', ''Comments''],
            rows = [[Num 1, Str ''First Name'', Str ''Anita'', Str []]]\<rparr>"
  by code_simp

subsection \<open>Failures of the model-backed extraction\<close>

lemma ai_text_read:
  "ai_extract_text_from_pdf (AIDocumentExtractor p flag)
   = (fst (ai_extract_text_from_pdf (AIDocumentExtractor p flag)),
      \<lparr>pdf_path = p, text_content = text_read p, use_ai = flag\<rparr>,
      snd (snd (ai_extract_text_from_pdf (AIDocumentExtractor p flag))))"
  by (auto simp: ai_extract_text_from_pdf_def AIDocumentExtractor_def text_read_def
           split: option.splits pdf.splits)

lemma cli_failure:
  "fails_with w (ai_prompt (text_content self)) f \<Longrightarrow>
   ai_extract_with_gemini w self = ([], cli_reports f, calls_made f (ai_prompt (text_content self)))"
  by (cases f) (simp_all add: ai_extract_with_gemini_def)

lemma form_failure:
  "fails_with w (app_prompt (text_content self)) f \<Longrightarrow>
   app_extract_body w self = ([], form_reports f, calls_made f (app_prompt (text_content self)))"
  by (cases f) (simp_all add: app_extract_body_def)

text \<open>
  Claim C7, as amended. For a new extractor with the flag on, each of the three failures
  (client construction, remote call, response parsing) gives the empty record list and
  the empty table, with at most one remote call. The command-line variant prints an
  error for each of the three. The form variant (with text to send and nothing cached)
  shows an error for a failed remote call and for an unreadable response, and none for a
  failed client construction.
\<close>

theorem failures_give_empty_table:
  "(fails_with w (ai_prompt (text_read p)) f \<longrightarrow>
      ai_extract_with_gemini w \<lparr>pdf_path = p, text_content = text_read p, use_ai = True\<rparr>
        = ([], cli_reports f, calls_made f (ai_prompt (text_read p)))
    \<and> fst (ai_process_document w (AIDocumentExtractor p True)) = Inr \<lparr>columns = [], rows = []\<rparr>
    \<and> set (cli_reports f)
        \<subseteq> set (fst (snd (snd (ai_process_document w (AIDocumentExtractor p True)))))
    \<and> snd (snd (snd (ai_process_document w (AIDocumentExtractor p True))))
        = calls_made f (ai_prompt (text_read p)))
   \<and> (fails_with w (app_prompt (text_read p)) f \<and> text_read p \<noteq> [] \<and> c [] = None \<longrightarrow>
      app_extract_body w \<lparr>pdf_path = p, text_content = text_read p, use_ai = True\<rparr>
        = ([], form_reports f, calls_made f (app_prompt (text_read p)))
    \<and> fst (fst (app_process_document c w (AIDocumentExtractor p True)))
        = Inr \<lparr>columns = [], rows = []\<rparr>
    \<and> set (form_reports f)
        \<subseteq> set (fst (snd (snd (fst (app_process_document c w (AIDocumentExtractor p True))))))
    \<and> length (snd (snd (snd (fst (app_process_document c w (AIDocumentExtractor p True)))))) \<le> 1)
   \<and> cli_reports f \<noteq> []
   \<and> length (calls_made f prompt) \<le> 1"
proof -
  have a: "fails_with w (ai_prompt (text_read p)) f \<longrightarrow>
      ai_extract_with_gemini w \<lparr>pdf_path = p, text_content = text_read p, use_ai = True\<rparr>
        = ([], cli_reports f, calls_made f (ai_prompt (text_read p)))"
    using cli_failure [of w "\<lparr>pdf_path = p, text_content = text_read p, use_ai = True\<rparr>" f]
    by simp
  have b: "fails_with w (app_prompt (text_read p)) f \<longrightarrow>
      app_extract_body w \<lparr>pdf_path = p, text_content = text_read p, use_ai = True\<rparr>
        = ([], form_reports f, calls_made f (app_prompt (text_read p)))"
    using form_failure [of w "\<lparr>pdf_path = p, text_content = text_read p, use_ai = True\<rparr>" f]
    by simp
  have pa: "fails_with w (ai_prompt (text_read p)) f \<longrightarrow>
      ai_process_document w (AIDocumentExtractor p True)
      = (Inr \<lparr>columns = [], rows = []\<rparr>,
         \<lparr>pdf_path = p, text_content = text_read p, use_ai = True\<rparr>,
         snd (snd (ai_extract_text_from_pdf (AIDocumentExtractor p True))) @ cli_reports f,
         calls_made f (ai_prompt (text_read p)))"
  proof
    assume h: "fails_with w (ai_prompt (text_read p)) f"
    show "ai_process_document w (AIDocumentExtractor p True)
      = (Inr \<lparr>columns = [], rows = []\<rparr>,
         \<lparr>pdf_path = p, text_content = text_read p, use_ai = True\<rparr>,
         snd (snd (ai_extract_text_from_pdf (AIDocumentExtractor p True))) @ cli_reports f,
         calls_made f (ai_prompt (text_read p)))"
      unfolding ai_process_document_def
      by (subst ai_text_read) (use h a in \<open>simp add: ai_build_table_Nil\<close>)
  qed
  have pb: "fails_with w (app_prompt (text_read p)) f \<and> text_read p \<noteq> [] \<and> c [] = None \<longrightarrow>
      fst (app_process_document c w (AIDocumentExtractor p True))
      = (Inr \<lparr>columns = [], rows = []\<rparr>,
         \<lparr>pdf_path = p, text_content = text_read p, use_ai = True\<rparr>,
         snd (snd (ai_extract_text_from_pdf (AIDocumentExtractor p True))) @ form_reports f,
         calls_made f (app_prompt (text_read p)))"
  proof
    assume h: "fails_with w (app_prompt (text_read p)) f \<and> text_read p \<noteq> [] \<and> c [] = None"
    show "fst (app_process_document c w (AIDocumentExtractor p True))
      = (Inr \<lparr>columns = [], rows = []\<rparr>,
         \<lparr>pdf_path = p, text_content = text_read p, use_ai = True\<rparr>,
         snd (snd (ai_extract_text_from_pdf (AIDocumentExtractor p True))) @ form_reports f,
         calls_made f (app_prompt (text_read p)))"
      unfolding app_process_document_def
      by (subst ai_text_read)
         (use h b in \<open>simp add: ai_build_table_Nil app_extract_with_gemini_def cache_key_self\<close>)
  qed
  have r: "cli_reports f \<noteq> []" and n: "length (calls_made f prompt) \<le> 1" for prompt
    by (cases f; simp)+
  show ?thesis
    using a b pa pb r n by simp
qed

lemma vijay_text_read: "text_read vijay_pdf = ''Vijay Kumar was born'' @ [CHR 0x0A]"
  by (simp add: text_read_def vijay_pdf_def ai_extract_text_from_pdf_def AIDocumentExtractor_def)

theorem failures_give_empty_table_witness:
  "fails_with api_error_world (ai_prompt (text_read vijay_pdf)) RemoteCall
   \<and> fails_with api_error_world (app_prompt (text_read vijay_pdf)) RemoteCall
   \<and> text_read vijay_pdf \<noteq> []
   \<and> (Map.empty :: cache) [] = None
   \<and> fst (ai_process_document api_error_world (AIDocumentExtractor vijay_pdf True))
       = Inr \<lparr>columns = [], rows = []\<rparr>
   \<and> ErrorGeminiAPI
       \<in> set (fst (snd (snd (ai_process_document api_error_world (AIDocumentExtractor vijay_pdf True)))))
   \<and> fst (fst (app_process_document Map.empty api_error_world (AIDocumentExtractor vijay_pdf True)))
       = Inr \<lparr>columns = [], rows = []\<rparr>
   \<and> ErrorGeminiAPI
       \<in> set (fst (snd (snd (fst (app_process_document Map.empty api_error_world
                                     (AIDocumentExtractor vijay_pdf True))))))
   \<and> fails_with no_client_world (ai_prompt (text_read vijay_pdf)) ClientConstruction
   \<and> fst (ai_process_document no_client_world (AIDocumentExtractor vijay_pdf True))
       = Inr \<lparr>columns = [], rows = []\<rparr>
   \<and> ErrorInitializingClient
       \<in> set (fst (snd (snd (ai_process_document no_client_world (AIDocumentExtractor vijay_pdf True)))))"
proof -
  have h1: "fails_with api_error_world (ai_prompt (text_read vijay_pdf)) RemoteCall"
    by (simp add: api_error_world_def)
  have h2: "fails_with api_error_world (app_prompt (text_read vijay_pdf)) RemoteCall"
    by (simp add: api_error_world_def)
  have h3: "text_read vijay_pdf \<noteq> []"
    by (simp add: vijay_text_read)
  have h4: "(Map.empty :: cache) [] = None"
    by simp
  have h5: "fails_with no_client_world (ai_prompt (text_read vijay_pdf)) ClientConstruction"
    by (simp add: no_client_world_def)
  show ?thesis
    using h1 h2 h3 h4 h5
      failures_give_empty_table [of api_error_world vijay_pdf RemoteCall Map.empty]
      failures_give_empty_table [of no_client_world vijay_pdf ClientConstruction Map.empty]
    by simp
qed

text \<open>
  The claim as stated fails in the form variant: when the client cannot be constructed,
  the run ends with the empty table and reports nothing.
\<close>

theorem form_client_failure_counterexample:
  "fst (fst (app_process_document Map.empty no_client_world (AIDocumentExtractor vijay_pdf True)))
     = Inr \<lparr>columns = [], rows = []\<rparr>
   \<and> fst (snd (snd (fst (app_process_document Map.empty no_client_world
                            (AIDocumentExtractor vijay_pdf True)))))
     = []"
  by code_simp

subsection \<open>The date rules\<close>

lemma directive_B_range: "(m, r) \<in> set (directive_B s) \<Longrightarrow> 1 \<le> m \<and> m \<le> 12"
  by (auto simp: directive_B_def month_alternatives_def split: if_splits)

lemma nonzero_digit_pos: "nonzero_digit c \<Longrightarrow> 1 \<le> digit c"
proof -
  assume h: "nonzero_digit c"
  have "of_char c \<noteq> (48::nat)"
  proof
    assume "of_char c = (48::nat)"
    then have "of_char c = (of_char (CHR ''0'') :: nat)" by simp
    then have "c = CHR ''0''" by (simp only: of_char_eq_iff)
    with h show False by (simp add: nonzero_digit_def)
  qed
  moreover from h have "48 \<le> (of_char c :: nat)"
    by (simp add: nonzero_digit_def isdigit_def Let_def)
  ultimately show ?thesis
    unfolding digit_def by linarith
qed

lemma digit_12: "digit CHR ''1'' = 1" "digit CHR ''2'' = 2"
  by (simp_all add: digit_def)

lemma directive_d_pos: "(d, r) \<in> set (directive_d s) \<Longrightarrow> 1 \<le> d"
  by (auto simp: directive_d_def digit_12 split: list.splits if_splits
           dest: nonzero_digit_pos)

lemma format_matches_range:
  "((y, m, d), rest) \<in> set (format_matches s) \<Longrightarrow> 1 \<le> m \<and> m \<le> 12 \<and> 1 \<le> d"
  by (auto simp: format_matches_def dest: directive_B_range directive_d_pos)

lemma strptime_calendar_date: "strptime s = Inr d \<Longrightarrow> calendar_date d"
proof -
  assume h: "strptime s = Inr d"
  then obtain y m dd rest ms where f: "format_matches s = ((y, m, dd), rest) # ms"
    by (auto simp: strptime_def split: list.splits if_splits)
  then have "((y, m, dd), rest) \<in> set (format_matches s)" by simp
  then have r: "1 \<le> m \<and> m \<le> 12 \<and> 1 \<le> dd" by (rule format_matches_range)
  from h f have "d = \<lparr>year = y, month = m, day = dd\<rparr> \<and> 1 \<le> y \<and> dd \<le> days_in_month y m"
    by (auto simp: strptime_def split: if_splits)
  with r show ?thesis by (simp add: calendar_date_def)
qed

lemma strptime_error: "strptime s = Inl e \<Longrightarrow> e = ValueError"
  by (auto simp: strptime_def split: list.splits if_splits)

lemma isdigit_two_digits: "list_all isdigit (two_digits n)"
proof -
  have "k mod 10 \<le> 9" for k :: nat
  proof -
    have "k mod 10 < 10" by simp
    then show ?thesis by linarith
  qed
  then show ?thesis
    by (simp add: two_digits_def isdigit_def Let_def)
qed


lemma strftime_shape:
  assumes "calendar_date d"
  shows "dd_mon_yy (strftime d)"
proof -
  obtain a b where ab: "two_digits (day d) = [a, b]" "isdigit a" "isdigit b"
    using isdigit_two_digits [of "day d"] by (simp add: two_digits_def)
  obtain a' b' where ab': "two_digits (year d mod 100) = [a', b']" "isdigit a'" "isdigit b'"
    using isdigit_two_digits [of "year d mod 100"] by (simp add: two_digits_def)
  from assms have "month d = 1 \<or> month d = 2 \<or> month d = 3 \<or> month d = 4 \<or> month d = 5
      \<or> month d = 6 \<or> month d = 7 \<or> month d = 8 \<or> month d = 9 \<or> month d = 10
      \<or> month d = 11 \<or> month d = 12"
    unfolding calendar_date_def by arith
  then show ?thesis
    by (elim disjE) (simp_all add: strftime_def dd_mon_yy_def month_abbr_def ab ab')
qed

lemma march_15_1989: "map_sum id strftime (strptime ''March 15, 1989'') = Inr ''15-Mar-89''"
  by code_simp

text \<open>
  What each of the four date-bearing rules does, for every document text: it contributes
  no record when its pattern matches nowhere; when the pattern matches and \<open>strptime\<close>
  reads the matched string, that string was a calendar date and the rule emits it in the
  shape \<open>DD-Mon-YY\<close> (\<open>March 15, 1989\<close> gives \<open>15-Mar-89\<close>); when the pattern matches a
  string that \<open>strptime\<close> rejects, the rule raises \<open>ValueError\<close>.
\<close>

lemma date_rule_outcomes:
  assumes "(re, rule, k) \<in> set date_rules"
  shows "(re_search re text = None \<longrightarrow> rule text = Inr [])
       \<and> (\<forall>m e. re_search re text = Some m \<and> strptime (group m 1) = Inl e \<longrightarrow>
              e = ValueError \<and> rule text = Inl ValueError)
       \<and> (\<forall>m d. re_search re text = Some m \<and> strptime (group m 1) = Inr d \<longrightarrow>
              (\<exists>others. rule text = Inr (\<lparr>key = k, val = strftime d, comments = []\<rparr> # others))
              \<and> calendar_date d \<and> dd_mon_yy (strftime d))
       \<and> map_sum id strftime (strptime ''March 15, 1989'') = Inr ''15-Mar-89''"
proof -
  have a: "re_search re text = None \<longrightarrow> rule text = Inr []"
    using assms
    by (auto simp: date_rules_def dob_rule_def first_job_rule_def current_join_rule_def
          prev_join_rule_def)
  have b: "\<forall>m e. re_search re text = Some m \<and> strptime (group m 1) = Inl e \<longrightarrow>
              e = ValueError \<and> rule text = Inl ValueError"
    using assms
    by (auto simp: date_rules_def dob_rule_def first_job_rule_def current_join_rule_def
          prev_join_rule_def dest: strptime_error)
  have c: "\<forall>m d. re_search re text = Some m \<and> strptime (group m 1) = Inr d \<longrightarrow>
              (\<exists>others. rule text = Inr (\<lparr>key = k, val = strftime d, comments = []\<rparr> # others))"
    using assms
    by (auto simp: date_rules_def dob_rule_def first_job_rule_def current_join_rule_def
          prev_join_rule_def)
  have d: "\<forall>s d. strptime s = Inr d \<longrightarrow> calendar_date d \<and> dd_mon_yy (strftime d)"
    by (auto dest: strptime_calendar_date intro: strftime_shape)
  from a b c d march_15_1989 show ?thesis
    by blast
qed

lemma dob_match_sentence:
  "re_search dob_re birth_sentence
   = Some \<lparr>whole = ''born on March 15, 1989'', groups = [''March 15, 1989'']\<rparr>"
  by code_simp

lemma march_15_1989_date:
  "strptime ''March 15, 1989'' = Inr \<lparr>year = 1989, month = 3, day = 15\<rparr>"
  by code_simp

lemma dob_match_foo:
  "re_search dob_re ''Ann Lee was born on Foo 15, 1989''
   = Some \<lparr>whole = ''born on Foo 15, 1989'', groups = [''Foo 15, 1989'']\<rparr>"
  by code_simp

lemma foo_15_1989: "strptime ''Foo 15, 1989'' = Inl ValueError"
  by code_simp

lemma dob_no_match: "re_search dob_re ''Ann Lee was born in 1989'' = None"
  by code_simp

lemma date_rule_outcomes_examples:
  "(dob_re, dob_rule, ''Date of Birth'') \<in> set date_rules
   \<and> re_search dob_re ''Ann Lee was born in 1989'' = None
   \<and> dob_rule ''Ann Lee was born in 1989'' = Inr []
   \<and> re_search dob_re birth_sentence
       = Some \<lparr>whole = ''born on March 15, 1989'', groups = [''March 15, 1989'']\<rparr>
   \<and> strptime ''March 15, 1989'' = Inr \<lparr>year = 1989, month = 3, day = 15\<rparr>
   \<and> (\<exists>others. dob_rule birth_sentence
         = Inr (\<lparr>key = ''Date of Birth'', val = ''15-Mar-89'', comments = []\<rparr> # others))
   \<and> dd_mon_yy ''15-Mar-89''
   \<and> re_search dob_re ''Ann Lee was born on Foo 15, 1989''
       = Some \<lparr>whole = ''born on Foo 15, 1989'', groups = [''Foo 15, 1989'']\<rparr>
   \<and> strptime ''Foo 15, 1989'' = Inl ValueError
   \<and> dob_rule ''Ann Lee was born on Foo 15, 1989'' = Inl ValueError"
proof -
  have h: "(dob_re, dob_rule, ''Date of Birth'') \<in> set date_rules"
    by (simp add: date_rules_def)
  have g1: "group \<lparr>whole = ''born on March 15, 1989'', groups = [''March 15, 1989'']\<rparr> 1
            = ''March 15, 1989''"
    by (simp add: group_def)
  have g2: "group \<lparr>whole = ''born on Foo 15, 1989'', groups = [''Foo 15, 1989'']\<rparr> 1
            = ''Foo 15, 1989''"
    by (simp add: group_def)
  have f: "strftime \<lparr>year = 1989, month = 3, day = 15\<rparr> = ''15-Mar-89''"
    by code_simp
  show ?thesis
    using h dob_no_match dob_match_sentence march_15_1989_date dob_match_foo foo_15_1989 g1 g2 f
      date_rule_outcomes [OF h, of "''Ann Lee was born in 1989''"]
      date_rule_outcomes [OF h, of birth_sentence]
      date_rule_outcomes [OF h, of "''Ann Lee was born on Foo 15, 1989''"]
    by (simp del: One_nat_def)
qed

text \<open>
  Claim C2 (the code departs from it). The pattern \<open>\w+ \d+, \d{4}\<close> with which the
  date rules look for a date is looser than the format \<open>%B %d, %Y\<close> with which they
  then read it, and the call of \<open>strptime\<close> is not guarded. On a text with
  \<open>born on Foo 15, 1989\<close>, or with the abbreviated month of \<open>born on Sept 5, 1990\<close>,
  the pattern of the date-of-birth rule matches, \<open>strptime\<close> rejects the matched
  string, and the rule does not just contribute no record: it raises \<open>ValueError\<close>,
  which leaves \<open>extract_personal_info\<close>, \<open>process_document\<close> and \<open>save_to_excel\<close>; no
  record of any rule is kept and no file is written. A date that the format accepts is
  reformatted as the claim says (\<open>date_rule_outcomes\<close> above).
\<close>

theorem date_rule_raises_on_non_date:
  "re_search dob_re ''Ann Lee was born on Foo 15, 1989''
     = Some \<lparr>whole = ''born on Foo 15, 1989'', groups = [''Foo 15, 1989'']\<rparr>
   \<and> strptime ''Foo 15, 1989'' = Inl ValueError
   \<and> dob_rule ''Ann Lee was born on Foo 15, 1989'' = Inl ValueError
   \<and> extract_personal_info ''Ann Lee was born on Foo 15, 1989'' = Inl ValueError
   \<and> fst (process_document (DocumentExtractor (Pages [PageText ''Ann Lee was born on Foo 15, 1989''])))
       = Inl ValueError
   \<and> fst (snd (save_to_excel (DocumentExtractor (Pages [PageText ''Ann Lee was born on Foo 15, 1989'']))
                 ''Output.xlsx'')) = None
   \<and> re_search dob_re ''Ann Lee was born on Sept 5, 1990''
     = Some \<lparr>whole = ''born on Sept 5, 1990'', groups = [''Sept 5, 1990'']\<rparr>
   \<and> strptime ''Sept 5, 1990'' = Inl ValueError
   \<and> dob_rule ''Ann Lee was born on Sept 5, 1990'' = Inl ValueError
   \<and> fst (process_document (DocumentExtractor (Pages [PageText ''Ann Lee was born on Sept 5, 1990''])))
       = Inl ValueError"
  by code_simp

text \<open>
  Claim C1 (the code departs from it). On the sentence of the claim the personal-info
  rules emit First Name \<open>Vijay\<close>, Last Name \<open>Kumar\<close> and Date of Birth \<open>15-Mar-89\<close>, and
  nothing else: the pattern of the birth-place rule asks for a run without comma between
  \<open>born on\<close> and \<open>, in\<close>, and the date of the sentence contains a comma, so neither
  Birth City nor Birth State is emitted.
\<close>

theorem birth_place_not_extracted:
  "extract_personal_info birth_sentence
   = Inr [\<lparr>key = ''First Name'', val = ''Vijay'', comments = []\<rparr>,
          \<lparr>key = ''Last Name'', val = ''Kumar'', comments = []\<rparr>,
          \<lparr>key = ''Date of Birth'', val = ''15-Mar-89'', comments = []\<rparr>]
   \<and> re_search birth_re birth_sentence = None
   \<and> birth_rule birth_sentence = []"
  by code_simp

end
